theory Spec2Isabelle
  imports Complex_Main "HOL-Library.AList"
begin

section \<open>Numbers\<close>

text \<open>
  The store computes with JavaScript numbers.  They are modelled as mathematical reals
  (and as integers where the source has applied \<open>Math.floor\<close>, \<open>Math.ceil\<close> or
  \<open>Math.round\<close>); binary rounding of doubles, NaN and overflow are outside the model.
  \<open>Math.round\<close> rounds a half upwards: \<open>Math.round x = Math.floor (x + 0.5)\<close>.
\<close>

definition js_round :: "real \<Rightarrow> int" where
  "js_round x = \<lfloor>x + 1 / 2\<rfloor>"

definition BarSpaceLimit_MIN :: real where "BarSpaceLimit_MIN = 1"
definition BarSpaceLimit_MAX :: real where "BarSpaceLimit_MAX = 50"
definition DEFAULT_BAR_SPACE :: real where "DEFAULT_BAR_SPACE = 10"
definition DEFAULT_OFFSET_RIGHT_DISTANCE :: real where "DEFAULT_OFFSET_RIGHT_DISTANCE = 80"
definition BAR_GAP_RATIO :: real where "BAR_GAP_RATIO = 2 / 10"
definition SCALE_MULTIPLIER :: real where "SCALE_MULTIPLIER = 10"

section \<open>Gap bar space\<close>

text \<open>
  \<open>_calcOptimalBarSpace\<close> as a function of the bar space: the value it stores in
  \<open>_gapBarSpace\<close>.  The test \<open>gapBarSpace % 2 === 0\<close> holds exactly for the even integers
  (JavaScript's remainder of an even negative integer is \<open>-0\<close>, and \<open>-0 === 0\<close>).
\<close>

definition calcOptimalBarSpace :: "real \<Rightarrow> int" where
  "calcOptimalBarSpace barSpace =
     (let specialBarSpace = 4;
          ratio = 1 - BAR_GAP_RATIO * arctan (max specialBarSpace barSpace - specialBarSpace) / (pi * (1 / 2));
          gapBarSpace = min \<lfloor>barSpace * ratio\<rfloor> \<lfloor>barSpace\<rfloor>;
          gapBarSpace' = (if gapBarSpace mod 2 = 0 \<and> barSpace \<le> real_of_int gapBarSpace + 2
                          then gapBarSpace - 1 else gapBarSpace)
      in max 1 gapBarSpace')"

section \<open>Data model\<close>

record KLineData =
  timestamp :: int
  openPrice :: real
  high :: real
  low :: real
  close :: real

record VisibleRange =
  range_from :: int
  range_to :: int
  realFrom :: int
  realTo :: int

text \<open>
  Modelled from the spec: \<open>getDefaultVisibleRange\<close> (\<open>common/VisibleRange\<close>) is not among
  the sources; clearing "wipes all derived state (visible range, ticks, crosshair) back to
  defaults", and the default range is the empty range at index 0.
\<close>

definition getDefaultVisibleRange :: VisibleRange where
  "getDefaultVisibleRange = \<lparr>range_from = 0, range_to = 0, realFrom = 0, realTo = 0\<rparr>"

record DateTime =
  YYYY :: string
  MM :: string
  DD :: string
  HH :: string
  mm :: string
  ss :: string

record TimeTick =
  weight :: nat
  dataIndex :: int
  dateTime :: DateTime
  tickTimestamp :: int

definition TimeWeight_Year :: nat where "TimeWeight_Year = 365 * 24 * 3600"
definition TimeWeight_Month :: nat where "TimeWeight_Month = 30 * 24 * 3600"
definition TimeWeight_Day :: nat where "TimeWeight_Day = 24 * 3600"
definition TimeWeight_Hour :: nat where "TimeWeight_Hour = 3600"
definition TimeWeight_Minute :: nat where "TimeWeight_Minute = 60"
definition TimeWeight_Second :: nat where "TimeWeight_Second = 1"

datatype ScrollLimitRole = BarCount | Distance

text \<open>The load kinds that the store names: \<open>Init\<close>, \<open>Forward\<close>, \<open>Backward\<close> and \<open>Update\<close>.\<close>

datatype LoadDataType = Init | Forward | Backward | Update

datatype IndicatorDataState = Loading | Ready | Error

record VisibleRangeData =
  vdDataIndex :: int
  vdX :: int
  vdData :: "KLineData option"

record PriceMark =
  markX :: int
  markPrice :: real

record Crosshair =
  crossX :: "real option"
  crossY :: "real option"
  crossPaneId :: "string option"
  realX :: "int option"
  crossKLineData :: "KLineData option"
  realDataIndex :: "int option"
  crossDataIndex :: "int option"

definition emptyCrosshair :: Crosshair where
  "emptyCrosshair = \<lparr>crossX = None, crossY = None, crossPaneId = None, realX = None,
     crossKLineData = None, realDataIndex = None, crossDataIndex = None\<rparr>"

record OverlayPoint =
  pointTimestamp :: "int option"
  pointDataIndex :: "int option"

text \<open>What the store does to its collaborators, in the order it does it.\<close>

datatype effect =
    OnVisibleRangeChange VisibleRange
  | OnScroll int
  | OnZoom real
  | ChartLayout
  | CrosshairChange
  | UpdatePane
  | LoadMoreData LoadDataType "KLineData option"

text \<open>
  Modelled from the spec: \<open>TaskScheduler\<close> and \<open>generateTaskId\<close> (\<open>common/TaskScheduler\<close>) are
  not among the sources.  A task is keyed by (pane, indicator name); "submitting a task for a
  key that already has one pending supersedes it rather than running both".  The pending
  tasks are an association list; each task carries the load kind its handler was built with.
\<close>

type_synonym task_id = "string \<times> string"

definition generateTaskId :: "string \<Rightarrow> string \<Rightarrow> task_id" where
  "generateTaskId paneId name = (paneId, name)"

definition addTask :: "task_id \<Rightarrow> LoadDataType \<Rightarrow> (task_id \<times> LoadDataType) list \<Rightarrow> (task_id \<times> LoadDataType) list" where
  "addTask tid ty tasks = AList.update tid ty tasks"

text \<open>
  \<open>_dataList\<close> is a JavaScript array: besides its elements it can carry the property \<open>-1\<close>,
  which \<open>this._dataList[dataCount - 1] = data\<close> sets when the array is empty and which every
  read \<open>this._dataList[-1]\<close> returns.  \<open>dataListMinus1\<close> is that property.  An array that
  \<open>addData\<close> is given, and one that \<open>concat\<close> or \<open>[]\<close> makes, is taken not to have it.
\<close>

record Store =
  dataList :: "KLineData list"
  dataListMinus1 :: "KLineData option"
  hasLoadMoreDataCallback :: bool
  loading :: bool
  loadDataMore_forward :: bool
  loadDataMore_backward :: bool
  formatDateToDateTime :: "int \<Rightarrow> DateTime"
  tickTextWidth :: real
  zoomEnabled :: bool
  scrollEnabled :: bool
  totalBarSpace :: real
  barSpace :: real
  gapBarSpace :: int
  offsetRightDistance :: real
  lastBarRightSideDiffBarCount :: real
  startLastBarRightSideDiffBarCount :: real
  scrollLimitRole :: ScrollLimitRole
  minVisibleBarCount_left :: real
  minVisibleBarCount_right :: real
  maxOffsetDistance_left :: real
  maxOffsetDistance_right :: real
  visibleRange :: VisibleRange
  cacheVisibleRange :: VisibleRange
  timeTicks :: "(nat \<times> TimeTick list) list"
  visibleRangeTimeTickList :: "TimeTick list"
  visibleRangeDataList :: "VisibleRangeData list"
  visibleRangeHighLowPrice :: "PriceMark \<times> PriceMark"
  crosshair :: Crosshair
  indicators :: "(string \<times> string list) list"
  pendingTasks :: "(task_id \<times> LoadDataType) list"
  overlays :: "(string \<times> OverlayPoint list list) list"
  effects :: "effect list"

section \<open>Construction and clearing\<close>

definition MIN_SAFE_INTEGER :: real where "MIN_SAFE_INTEGER = - (2 ^ 53 - 1)"
definition MAX_SAFE_INTEGER :: real where "MAX_SAFE_INTEGER = 2 ^ 53 - 1"

definition defaultHighLowPrice :: "PriceMark \<times> PriceMark" where
  "defaultHighLowPrice =
     (\<lparr>markX = 0, markPrice = MIN_SAFE_INTEGER\<rparr>, \<lparr>markX = 0, markPrice = MAX_SAFE_INTEGER\<rparr>)"

text \<open>
  The store as its field initialisers and constructor leave it.  The date formatter and the
  measured width of the tick label \<open>0000-00-00 00:00\<close> come from the platform
  (\<open>Intl.DateTimeFormat\<close>, \<open>calcTextWidth\<close>) and are parameters.
\<close>

definition newStore :: "(int \<Rightarrow> DateTime) \<Rightarrow> real \<Rightarrow> Store" where
  "newStore fmt textWidth =
     \<lparr>dataList = [], dataListMinus1 = None, hasLoadMoreDataCallback = False, loading = True,
      loadDataMore_forward = False, loadDataMore_backward = False,
      formatDateToDateTime = fmt, tickTextWidth = textWidth,
      zoomEnabled = True, scrollEnabled = True,
      totalBarSpace = 0, barSpace = DEFAULT_BAR_SPACE,
      gapBarSpace = calcOptimalBarSpace DEFAULT_BAR_SPACE,
      offsetRightDistance = DEFAULT_OFFSET_RIGHT_DISTANCE,
      lastBarRightSideDiffBarCount = DEFAULT_OFFSET_RIGHT_DISTANCE / DEFAULT_BAR_SPACE,
      startLastBarRightSideDiffBarCount = 0,
      scrollLimitRole = BarCount,
      minVisibleBarCount_left = 2, minVisibleBarCount_right = 2,
      maxOffsetDistance_left = 50, maxOffsetDistance_right = 50,
      visibleRange = getDefaultVisibleRange, cacheVisibleRange = getDefaultVisibleRange,
      timeTicks = [], visibleRangeTimeTickList = [], visibleRangeDataList = [],
      visibleRangeHighLowPrice = defaultHighLowPrice,
      crosshair = emptyCrosshair, indicators = [], pendingTasks = [], overlays = [],
      effects = []\<rparr>"

definition clear :: "Store \<Rightarrow> Store" where
  "clear s = s\<lparr>loadDataMore_backward := False, loadDataMore_forward := False, loading := True,
     dataList := [], dataListMinus1 := None, visibleRangeDataList := [],
     visibleRangeHighLowPrice := defaultHighLowPrice,
     visibleRange := getDefaultVisibleRange, cacheVisibleRange := getDefaultVisibleRange,
     timeTicks := [], crosshair := emptyCrosshair\<rparr>"

definition emit :: "effect \<Rightarrow> Store \<Rightarrow> Store" where
  "emit e s = s\<lparr>effects := effects s @ [e]\<rparr>"

text \<open>\<open>xs[i]\<close> for an integer \<open>i\<close>: \<open>undefined\<close> (here \<open>None\<close>) outside the array.\<close>

definition dataAt :: "'a list \<Rightarrow> int \<Rightarrow> 'a option" where
  "dataAt xs i = (if 0 \<le> i \<and> i < int (length xs) then Some (xs ! nat i) else None)"

text \<open>\<open>this._dataList[i]\<close> for an integer \<open>i\<close>: an element, the property \<open>-1\<close>, or \<open>undefined\<close>.\<close>

definition dataListAt :: "Store \<Rightarrow> int \<Rightarrow> KLineData option" where
  "dataListAt s i = (if i = - 1 then dataListMinus1 s else dataAt (dataList s) i)"

section \<open>Coordinates\<close>

definition dataIndexToCoordinate :: "Store \<Rightarrow> int \<Rightarrow> int" where
  "dataIndexToCoordinate s i =
     (let dataCount = real (length (dataList s));
          deltaFromRight = dataCount + lastBarRightSideDiffBarCount s - real_of_int i
      in \<lfloor>totalBarSpace s - (deltaFromRight - 1 / 2) * barSpace s + 1 / 2\<rfloor>)"

definition coordinateToFloatIndex :: "Store \<Rightarrow> real \<Rightarrow> real" where
  "coordinateToFloatIndex s x =
     (let dataCount = real (length (dataList s));
          deltaFromRight = (totalBarSpace s - x) / barSpace s;
          index = dataCount + lastBarRightSideDiffBarCount s - deltaFromRight
      in real_of_int (js_round (index * 1000000)) / 1000000)"

definition coordinateToDataIndex :: "Store \<Rightarrow> real \<Rightarrow> int" where
  "coordinateToDataIndex s x = \<lceil>coordinateToFloatIndex s x\<rceil> - 1"

section \<open>Time ticks\<close>

definition tickWeight :: "DateTime \<Rightarrow> DateTime option \<Rightarrow> nat" where
  "tickWeight dt prev =
     (case prev of
        None \<Rightarrow> TimeWeight_Second
      | Some p \<Rightarrow>
          if YYYY dt \<noteq> YYYY p then TimeWeight_Year
          else if MM dt \<noteq> MM p then TimeWeight_Month
          else if DD dt \<noteq> DD p then TimeWeight_Day
          else if HH dt \<noteq> HH p then TimeWeight_Hour
          else if mm dt \<noteq> mm p then TimeWeight_Minute
          else TimeWeight_Second)"

text \<open>
  The loop of \<open>_classifyTimeTicks\<close>: \<open>i\<close> is \<open>i + baseDataIndex\<close>.  The tick lists are a
  JavaScript \<open>Map\<close>: \<open>set\<close> replaces the value of a present key where it stands and puts a new
  key last, which is \<open>AList.update\<close>.
\<close>

fun classifyLoop :: "(int \<Rightarrow> DateTime) \<Rightarrow> KLineData list \<Rightarrow> int \<Rightarrow> KLineData option
    \<Rightarrow> (nat \<times> TimeTick list) list \<Rightarrow> (nat \<times> TimeTick list) list" where
  "classifyLoop fmt [] i prevKLineData ticks = ticks"
| "classifyLoop fmt (kLineData # rest) i prevKLineData ticks =
     (let dt = fmt (timestamp kLineData);
          w = tickWeight dt (map_option (\<lambda>p. fmt (timestamp p)) prevKLineData);
          tickList = (case map_of ticks w of None \<Rightarrow> [] | Some l \<Rightarrow> l);
          tick = \<lparr>weight = w, dataIndex = i, dateTime = dt, tickTimestamp = timestamp kLineData\<rparr>
      in classifyLoop fmt rest (i + 1) (Some kLineData) (AList.update w (tickList @ [tick]) ticks))"

definition classifyTimeTicks :: "KLineData list \<Rightarrow> bool \<Rightarrow> Store \<Rightarrow> Store" where
  "classifyTimeTicks newDataList isUpdate s =
     (if isUpdate
      then s\<lparr>timeTicks := classifyLoop (formatDateToDateTime s) newDataList (int (length (dataList s)))
               (dataListAt s (int (length (dataList s)) - 1)) (timeTicks s)\<rparr>
      else s\<lparr>timeTicks := classifyLoop (formatDateToDateTime s) newDataList 0 None []\<rparr>)"

text \<open>
  \<open>leftIndex\<close> and \<open>rightIndex\<close> start at \<open>-Infinity\<close> and \<open>Infinity\<close>: \<open>None\<close> stands for the
  infinite value, and a comparison \<open>\<plusminus>Infinity >= barCount\<close> is true.
\<close>

definition farFromRight :: "int option \<Rightarrow> int \<Rightarrow> int \<Rightarrow> bool" where
  "farFromRight rightIndex currentIndex barCount =
     (case rightIndex of None \<Rightarrow> True | Some r \<Rightarrow> barCount \<le> r - currentIndex)"

definition farFromLeft :: "int option \<Rightarrow> int \<Rightarrow> int \<Rightarrow> bool" where
  "farFromLeft leftIndex currentIndex barCount =
     (case leftIndex of None \<Rightarrow> True | Some l \<Rightarrow> barCount \<le> currentIndex - l)"

text \<open>
  The inner \<open>while\<close> loop: the ticks of the coarser list that stand before \<open>currentIndex\<close> move
  to the result.  The first argument is the coarser list from \<open>prevTickListPointer\<close> on.
\<close>

fun drainPrev :: "TimeTick list \<Rightarrow> int \<Rightarrow> TimeTick list \<Rightarrow> int option \<Rightarrow> int option
    \<Rightarrow> TimeTick list \<times> TimeTick list \<times> int option \<times> int option" where
  "drainPrev [] currentIndex tickList leftIndex rightIndex = ([], tickList, leftIndex, rightIndex)"
| "drainPrev (lastMark # prev) currentIndex tickList leftIndex rightIndex =
     (if dataIndex lastMark < currentIndex
      then drainPrev prev currentIndex (tickList @ [lastMark]) (Some (dataIndex lastMark)) None
      else (lastMark # prev, tickList, leftIndex, Some (dataIndex lastMark)))"

text \<open>The \<open>for\<close> loop over the ticks of one weight, and the copy of the rest of the coarser list.\<close>

fun mergeTicks :: "int \<Rightarrow> TimeTick list \<Rightarrow> TimeTick list \<Rightarrow> TimeTick list \<Rightarrow> int option \<Rightarrow> int option
    \<Rightarrow> TimeTick list" where
  "mergeTicks barCount [] prev tickList leftIndex rightIndex = tickList @ prev"
| "mergeTicks barCount (tick # currentTicks) prev tickList leftIndex rightIndex =
     (case drainPrev prev (dataIndex tick) tickList leftIndex rightIndex of
        (prev', tickList', leftIndex', rightIndex') \<Rightarrow>
          if farFromRight rightIndex' (dataIndex tick) barCount \<and> farFromLeft leftIndex' (dataIndex tick) barCount
          then mergeTicks barCount currentTicks prev' (tickList' @ [tick]) (Some (dataIndex tick)) rightIndex'
          else mergeTicks barCount currentTicks prev' tickList' leftIndex' rightIndex')"


definition lastIndex :: "TimeTick list \<Rightarrow> int option" where
  "lastIndex ticks = (if ticks = [] then None else Some (dataIndex (last ticks)))"

definition tickBarCount :: "Store \<Rightarrow> int" where
  "tickBarCount s =
     (let width = max (real_of_int \<lceil>totalBarSpace s / 10\<rceil>) (tickTextWidth s)
      in \<lceil>width / barSpace s\<rceil>)"

text \<open>The keys of the map, sorted by \<open>(w1, w2) => w2 - w1\<close>: the greatest weight first.\<close>

definition sortedWeights :: "(nat \<times> TimeTick list) list \<Rightarrow> nat list" where
  "sortedWeights ticks = rev (sort (map fst ticks))"

definition allTickList :: "int \<Rightarrow> (nat \<times> TimeTick list) list \<Rightarrow> TimeTick list" where
  "allTickList barCount ticks =
     foldl (\<lambda>prevTickList key.
              mergeTicks barCount (case map_of ticks key of None \<Rightarrow> [] | Some l \<Rightarrow> l) prevTickList [] None None)
       [] (sortedWeights ticks)"

definition adjustVisibleRangeTimeTickList :: "Store \<Rightarrow> Store" where
  "adjustVisibleRangeTimeTickList s =
     s\<lparr>visibleRangeTimeTickList :=
          filter (\<lambda>tick. range_from (visibleRange s) \<le> dataIndex tick \<and> dataIndex tick \<le> range_to (visibleRange s))
            (allTickList (tickBarCount s) (timeTicks s))\<rparr>"

section \<open>The visible range\<close>

text \<open>
  \<open>_adjustVisibleRange\<close>, in the order of the source: the two scroll limits, the clamped right
  offset, the range, the visible data with its highest and lowest price, the tick labels (when
  the clamped range has changed) and the request for more data.
\<close>

definition leftMinVisibleBarCount :: "Store \<Rightarrow> real" where
  "leftMinVisibleBarCount s =
     max 0 (if scrollLimitRole s = Distance
            then (totalBarSpace s - maxOffsetDistance_right s) / barSpace s
            else minVisibleBarCount_left s)"

definition rightMinVisibleBarCount :: "Store \<Rightarrow> real" where
  "rightMinVisibleBarCount s =
     max 0 (if scrollLimitRole s = Distance
            then (totalBarSpace s - maxOffsetDistance_left s) / barSpace s
            else minVisibleBarCount_right s)"

definition maxRightOffsetBarCount :: "Store \<Rightarrow> real" where
  "maxRightOffsetBarCount s =
     totalBarSpace s / barSpace s - min (leftMinVisibleBarCount s) (real (length (dataList s)))"

definition minRightOffsetBarCount :: "Store \<Rightarrow> real" where
  "minRightOffsetBarCount s =
     - real (length (dataList s)) + min (rightMinVisibleBarCount s) (real (length (dataList s)))"

definition limitedDiffBarCount :: "Store \<Rightarrow> real" where
  "limitedDiffBarCount s =
     (let d = (if maxRightOffsetBarCount s < lastBarRightSideDiffBarCount s
               then maxRightOffsetBarCount s else lastBarRightSideDiffBarCount s)
      in if d < minRightOffsetBarCount s then minRightOffsetBarCount s else d)"

definition calcVisibleRange :: "Store \<Rightarrow> VisibleRange" where
  "calcVisibleRange s =
     (let totalBarCount = int (length (dataList s));
          visibleBarCount = totalBarSpace s / barSpace s;
          to0 = js_round (lastBarRightSideDiffBarCount s + real_of_int totalBarCount + 1 / 2);
          to = (if totalBarCount < to0 then totalBarCount else to0);
          from0 = js_round (real_of_int to - visibleBarCount) - 1;
          from = (if from0 < 0 then 0 else from0);
          realFrom = (if 0 < lastBarRightSideDiffBarCount s
                      then js_round (real_of_int totalBarCount + lastBarRightSideDiffBarCount s - visibleBarCount) - 1
                      else from)
      in \<lparr>range_from = from, range_to = to, realFrom = realFrom, realTo = to0\<rparr>)"

definition visibleData :: "Store \<Rightarrow> VisibleRangeData list" where
  "visibleData s =
     map (\<lambda>i. \<lparr>vdDataIndex = i, vdX = dataIndexToCoordinate s i, vdData = dataListAt s i\<rparr>)
       [realFrom (visibleRange s) .. realTo (visibleRange s) - 1]"

definition updateHighLow :: "PriceMark \<times> PriceMark \<Rightarrow> VisibleRangeData \<Rightarrow> PriceMark \<times> PriceMark" where
  "updateHighLow hl v =
     (case vdData v of
        None \<Rightarrow> hl
      | Some kLineData \<Rightarrow>
          ((if markPrice (fst hl) < high kLineData
            then \<lparr>markX = vdX v, markPrice = high kLineData\<rparr> else fst hl),
           (if low kLineData < markPrice (snd hl)
            then \<lparr>markX = vdX v, markPrice = low kLineData\<rparr> else snd hl)))"

definition loadMore :: "Store \<Rightarrow> Store" where
  "loadMore s =
     (let totalBarCount = int (length (dataList s)) in
      if \<not> loading s \<and> hasLoadMoreDataCallback s then
        (if range_from (visibleRange s) = 0 then
           (if loadDataMore_forward s
            then emit (LoadMoreData Forward (dataListAt s 0)) (s\<lparr>loading := True\<rparr>)
            else s)
         else if range_to (visibleRange s) = totalBarCount then
           (if loadDataMore_backward s
            then emit (LoadMoreData Backward (dataListAt s (totalBarCount - 1))) (s\<lparr>loading := True\<rparr>)
            else s)
         else s)
      else s)"

definition adjustVisibleRange :: "Store \<Rightarrow> Store" where
  "adjustVisibleRange s =
     (let s1 = s\<lparr>lastBarRightSideDiffBarCount := limitedDiffBarCount s\<rparr>;
          s2 = s1\<lparr>visibleRange := calcVisibleRange s1\<rparr>;
          s3 = emit (OnVisibleRangeChange (visibleRange s2)) s2;
          s4 = s3\<lparr>visibleRangeDataList := visibleData s3\<rparr>;
          s5 = s4\<lparr>visibleRangeHighLowPrice := foldl updateHighLow defaultHighLowPrice (visibleRangeDataList s4)\<rparr>;
          s6 = (if range_from (cacheVisibleRange s5) \<noteq> range_from (visibleRange s5) \<or>
                   range_to (cacheVisibleRange s5) \<noteq> range_to (visibleRange s5)
                then adjustVisibleRangeTimeTickList (s5\<lparr>cacheVisibleRange := visibleRange s5\<rparr>)
                else s5)
      in loadMore s6)"

section \<open>The crosshair\<close>

definition setCrosshair :: "Crosshair \<Rightarrow> bool \<Rightarrow> Store \<Rightarrow> Store" where
  "setCrosshair cr notInvalidate s =
     (let n = int (length (dataList s));
          realIdx = (case crossX cr of Some x \<Rightarrow> coordinateToDataIndex s x | None \<Rightarrow> n - 1);
          idx = (case crossX cr of
                   Some x \<Rightarrow> (if realIdx < 0 then 0 else if n - 1 < realIdx then n - 1 else realIdx)
                 | None \<Rightarrow> realIdx);
          kLineData = dataListAt s idx;
          prevCrosshair = crosshair s;
          s1 = s\<lparr>crosshair := cr\<lparr>realX := Some (dataIndexToCoordinate s realIdx),
                  crossKLineData := kLineData, realDataIndex := Some realIdx, crossDataIndex := Some idx\<rparr>\<rparr>
      in if crossX prevCrosshair \<noteq> crossX cr \<or> crossY prevCrosshair \<noteq> crossY cr \<or>
            crossPaneId prevCrosshair \<noteq> crossPaneId cr
         then (let s2 = (if kLineData \<noteq> None then emit CrosshairChange s1 else s1)
               in if \<not> notInvalidate then emit UpdatePane s2 else s2)
         else s1)"

section \<open>Bar space, total space, offsets and scroll limits\<close>

text \<open>\<open>adjustBeforeFunc\<close> is an optional callback that changes the store before the range is adjusted.\<close>

definition setBarSpace :: "real \<Rightarrow> (Store \<Rightarrow> Store) option \<Rightarrow> Store \<Rightarrow> Store" where
  "setBarSpace newBarSpace adjustBeforeFunc s =
     (if newBarSpace < BarSpaceLimit_MIN \<or> BarSpaceLimit_MAX < newBarSpace \<or> barSpace s = newBarSpace
      then s
      else
        (let s1 = s\<lparr>barSpace := newBarSpace\<rparr>;
             s2 = s1\<lparr>gapBarSpace := calcOptimalBarSpace (barSpace s1)\<rparr>;
             s3 = (case adjustBeforeFunc of None \<Rightarrow> s2 | Some f \<Rightarrow> f s2);
             s4 = adjustVisibleRange s3;
             s5 = setCrosshair (crosshair s4) True s4
         in emit ChartLayout s5))"

definition setTotalBarSpace :: "real \<Rightarrow> Store \<Rightarrow> Store" where
  "setTotalBarSpace totalSpace s =
     (if totalBarSpace s \<noteq> totalSpace
      then (let s1 = adjustVisibleRange (s\<lparr>totalBarSpace := totalSpace\<rparr>)
            in setCrosshair (crosshair s1) True s1)
      else s)"

definition setOffsetRightDistance :: "real \<Rightarrow> bool \<Rightarrow> Store \<Rightarrow> Store" where
  "setOffsetRightDistance distance isUpdate s =
     (let s1 = s\<lparr>offsetRightDistance :=
                   (if scrollLimitRole s = Distance then min (maxOffsetDistance_right s) distance else distance)\<rparr>;
          s2 = s1\<lparr>lastBarRightSideDiffBarCount := offsetRightDistance s1 / barSpace s1\<rparr>
      in if isUpdate
         then (let s3 = adjustVisibleRange s2;
                   s4 = setCrosshair (crosshair s3) True s3
               in emit ChartLayout s4)
         else s2)"

definition setLastBarRightSideDiffBarCount :: "real \<Rightarrow> Store \<Rightarrow> Store" where
  "setLastBarRightSideDiffBarCount barCount s = s\<lparr>lastBarRightSideDiffBarCount := barCount\<rparr>"

definition setMaxOffsetLeftDistance :: "real \<Rightarrow> Store \<Rightarrow> Store" where
  "setMaxOffsetLeftDistance distance s = s\<lparr>scrollLimitRole := Distance, maxOffsetDistance_left := distance\<rparr>"

definition setMaxOffsetRightDistance :: "real \<Rightarrow> Store \<Rightarrow> Store" where
  "setMaxOffsetRightDistance distance s = s\<lparr>scrollLimitRole := Distance, maxOffsetDistance_right := distance\<rparr>"

definition setLeftMinVisibleBarCount :: "real \<Rightarrow> Store \<Rightarrow> Store" where
  "setLeftMinVisibleBarCount barCount s = s\<lparr>scrollLimitRole := BarCount, minVisibleBarCount_left := barCount\<rparr>"

definition setRightMinVisibleBarCount :: "real \<Rightarrow> Store \<Rightarrow> Store" where
  "setRightMinVisibleBarCount barCount s = s\<lparr>scrollLimitRole := BarCount, minVisibleBarCount_right := barCount\<rparr>"

section \<open>Scrolling and zooming\<close>

definition startScroll :: "Store \<Rightarrow> Store" where
  "startScroll s = s\<lparr>startLastBarRightSideDiffBarCount := lastBarRightSideDiffBarCount s\<rparr>"

definition scroll :: "real \<Rightarrow> Store \<Rightarrow> Store" where
  "scroll distance s =
     (if \<not> scrollEnabled s then s
      else
        (let distanceBarCount = distance / barSpace s;
             prevLastBarRightSideDistance = lastBarRightSideDiffBarCount s * barSpace s;
             s1 = s\<lparr>lastBarRightSideDiffBarCount := startLastBarRightSideDiffBarCount s - distanceBarCount\<rparr>;
             s2 = adjustVisibleRange s1;
             s3 = setCrosshair (crosshair s2) True s2;
             s4 = emit ChartLayout s3;
             realDistance = js_round (prevLastBarRightSideDistance - lastBarRightSideDiffBarCount s4 * barSpace s4)
         in if realDistance \<noteq> 0 then emit (OnScroll realDistance) s4 else s4))"

text \<open>
  \<open>zoom\<close>: the argument is \<open>coordinate?.x\<close> when it is a number.  The callback given to
  \<open>setBarSpace\<close> moves the right offset by the change of the float index under \<open>x\<close>.
\<close>

definition zoomAnchor :: "Store \<Rightarrow> real option \<Rightarrow> real" where
  "zoomAnchor s coordinateX =
     (case coordinateX of
        Some x \<Rightarrow> x
      | None \<Rightarrow> (case crossX (crosshair s) of Some cx \<Rightarrow> cx | None \<Rightarrow> totalBarSpace s / 2))"

definition zoomShift :: "real \<Rightarrow> real \<Rightarrow> Store \<Rightarrow> Store" where
  "zoomShift floatIndex x s =
     s\<lparr>lastBarRightSideDiffBarCount :=
          lastBarRightSideDiffBarCount s + (floatIndex - coordinateToFloatIndex s x)\<rparr>"

definition zoomBarSpace :: "Store \<Rightarrow> real \<Rightarrow> real" where
  "zoomBarSpace s scale = barSpace s + scale * (barSpace s / SCALE_MULTIPLIER)"

definition zoom :: "real \<Rightarrow> real option \<Rightarrow> Store \<Rightarrow> Store" where
  "zoom scale coordinateX s =
     (if \<not> zoomEnabled s then s
      else
        (let x = zoomAnchor s coordinateX;
             floatIndex = coordinateToFloatIndex s x;
             prevBarSpace = barSpace s;
             s1 = setBarSpace (zoomBarSpace s scale) (Some (zoomShift floatIndex x)) s;
             realScale = barSpace s1 / prevBarSpace
         in if realScale \<noteq> 1 then emit (OnZoom realScale) s1 else s1))"

text \<open>
  The store as the callback of \<open>zoom\<close> leaves it, before \<open>setBarSpace\<close> adjusts the visible
  range; the two comparisons by which \<open>_adjustVisibleRange\<close> clamps a right offset to the
  scroll limits of a store; and whether the right offset of a store lies between the limits,
  so that \<open>_adjustVisibleRange\<close> keeps it.
\<close>

definition zoomShifted :: "real \<Rightarrow> real \<Rightarrow> Store \<Rightarrow> Store" where
  "zoomShifted scale x s =
     zoomShift (coordinateToFloatIndex s x) x
       (s\<lparr>barSpace := zoomBarSpace s scale, gapBarSpace := calcOptimalBarSpace (zoomBarSpace s scale)\<rparr>)"

definition clampToScrollLimits :: "Store \<Rightarrow> real \<Rightarrow> real" where
  "clampToScrollLimits s d =
     (let d1 = (if maxRightOffsetBarCount s < d then maxRightOffsetBarCount s else d)
      in if d1 < minRightOffsetBarCount s then minRightOffsetBarCount s else d1)"

definition withinScrollLimits :: "Store \<Rightarrow> bool" where
  "withinScrollLimits s \<longleftrightarrow>
     minRightOffsetBarCount s \<le> lastBarRightSideDiffBarCount s \<and>
     lastBarRightSideDiffBarCount s \<le> maxRightOffsetBarCount s"

section \<open>Adding data\<close>

datatype AddDataInput = DataArray "KLineData list" | DataSingle KLineData

record MoreFlag =
  more_forward :: bool
  more_backward :: bool

text \<open>\<open>more?.forward ?? false\<close> and \<open>more?.backward ?? false\<close>.\<close>

definition moreForward :: "MoreFlag option \<Rightarrow> bool" where
  "moreForward more' = (case more' of None \<Rightarrow> False | Some m \<Rightarrow> more_forward m)"

definition moreBackward :: "MoreFlag option \<Rightarrow> bool" where
  "moreBackward more' = (case more' of None \<Rightarrow> False | Some m \<Rightarrow> more_backward m)"

text \<open>
  What \<open>addData\<close> knows after its first part: the store, \<open>success\<close>, \<open>adjustFlag\<close> and
  \<open>dataLengthChange\<close>.
\<close>

record Loaded =
  store :: Store
  success :: bool
  adjustFlag :: bool
  dataLengthChange :: nat

text \<open>
  The array branch.  Its \<open>switch\<close> has no case for \<open>Update\<close>: the list is left alone, and the
  call still counts as a success with \<open>dataLengthChange = data.length\<close>.
\<close>

definition addDataArray :: "KLineData list \<Rightarrow> LoadDataType \<Rightarrow> MoreFlag option \<Rightarrow> Store \<Rightarrow> Loaded" where
  "addDataArray data ty more' s =
     (case ty of
        Init \<Rightarrow>
          (let s1 = (clear s)\<lparr>dataList := data\<rparr>;
               s2 = s1\<lparr>loadDataMore_backward := moreForward more'\<rparr>;
               s3 = s2\<lparr>loadDataMore_forward := moreForward more'\<rparr>;
               s4 = classifyTimeTicks (dataList s3) False s3;
               s5 = setOffsetRightDistance (offsetRightDistance s4) False s4
           in \<lparr>store = s5\<lparr>loading := False\<rparr>, success = True, adjustFlag = True,
               dataLengthChange = length data\<rparr>)
      | Backward \<Rightarrow>
          (let s1 = classifyTimeTicks data True s;
               s2 = s1\<lparr>dataList := dataList s1 @ data, dataListMinus1 := None\<rparr>;
               s3 = s2\<lparr>loadDataMore_backward := moreBackward more'\<rparr>
           in \<lparr>store = s3\<lparr>loading := False\<rparr>, success = True, adjustFlag = (0 < length data),
               dataLengthChange = length data\<rparr>)
      | Forward \<Rightarrow>
          (let s1 = s\<lparr>dataList := data @ dataList s, dataListMinus1 := None\<rparr>;
               s2 = classifyTimeTicks (dataList s1) False s1;
               s3 = s2\<lparr>loadDataMore_forward := moreForward more'\<rparr>
           in \<lparr>store = s3\<lparr>loading := False\<rparr>, success = True, adjustFlag = (0 < length data),
               dataLengthChange = length data\<rparr>)
      | Update \<Rightarrow>
          \<lparr>store = s\<lparr>loading := False\<rparr>, success = True, adjustFlag = False,
           dataLengthChange = length data\<rparr>)"

text \<open>
  Modelled from the spec: \<open>formatValue\<close> (\<open>common/utils/format\<close>) is not among the sources.
  \<open>formatValue(this._dataList[dataCount - 1], 'timestamp', 0)\<close> is the last bar's timestamp, and
  the default \<open>0\<close> when there is no last bar.
\<close>

definition lastDataTimestamp :: "Store \<Rightarrow> int" where
  "lastDataTimestamp s =
     (case dataListAt s (int (length (dataList s)) - 1) of None \<Rightarrow> 0 | Some k \<Rightarrow> timestamp k)"

text \<open>
  The single-bar branch.  With an empty list, \<open>this._dataList[-1] = data\<close> sets the property
  \<open>-1\<close> of the array, which is not an element: the list stays empty.
\<close>

definition addDataSingle :: "KLineData \<Rightarrow> Store \<Rightarrow> Loaded" where
  "addDataSingle data s =
     (if lastDataTimestamp s < timestamp data then
        (let s1 = classifyTimeTicks [data] True s;
             s2 = s1\<lparr>dataList := dataList s1 @ [data]\<rparr>;
             s3 = (if lastBarRightSideDiffBarCount s2 < 0
                   then setLastBarRightSideDiffBarCount (lastBarRightSideDiffBarCount s2 - 1) s2
                   else s2)
         in \<lparr>store = s3, success = True, adjustFlag = True, dataLengthChange = 1\<rparr>)
      else if timestamp data = lastDataTimestamp s then
        \<lparr>store = (if dataList s = [] then s\<lparr>dataListMinus1 := Some data\<rparr>
                  else s\<lparr>dataList := (dataList s)[length (dataList s) - 1 := data]\<rparr>),
         success = True, adjustFlag = True, dataLengthChange = 0\<rparr>
      else \<lparr>store = s, success = False, adjustFlag = False, dataLengthChange = 0\<rparr>)"

definition resolvePoint :: "LoadDataType \<Rightarrow> nat \<Rightarrow> Store \<Rightarrow> OverlayPoint \<Rightarrow> OverlayPoint" where
  "resolvePoint ty change s point =
     (case (pointTimestamp point, pointDataIndex point) of
        (None, Some i) \<Rightarrow>
          (let i' = (if ty = Forward then i + int change else i)
           in \<lparr>pointTimestamp = map_option timestamp (dataListAt s i'), pointDataIndex = Some i'\<rparr>)
      | _ \<Rightarrow> point)"

definition resolveOverlays :: "LoadDataType \<Rightarrow> nat \<Rightarrow> Store \<Rightarrow> Store" where
  "resolveOverlays ty change s =
     s\<lparr>overlays := map (\<lambda>(paneId, os). (paneId, map (map (resolvePoint ty change s)) os)) (overlays s)\<rparr>"

text \<open>
  \<open>_addIndicatorCalcTask\<close> submits a task under the key of the pane and the indicator's name;
  \<open>addData\<close> does so for every indicator of every pane, in the order of the map.
\<close>

definition addIndicatorCalcTask :: "string \<Rightarrow> string \<Rightarrow> LoadDataType
    \<Rightarrow> (task_id \<times> LoadDataType) list \<Rightarrow> (task_id \<times> LoadDataType) list" where
  "addIndicatorCalcTask paneId name ty tasks = addTask (generateTaskId paneId name) ty tasks"

definition addAllIndicatorCalcTasks :: "LoadDataType \<Rightarrow> Store \<Rightarrow> Store" where
  "addAllIndicatorCalcTasks ty s =
     s\<lparr>pendingTasks :=
          foldl (\<lambda>tasks (paneId, names). foldl (\<lambda>tasks' name. addIndicatorCalcTask paneId name ty tasks') tasks names)
            (pendingTasks s) (indicators s)\<rparr>"

definition addData :: "AddDataInput \<Rightarrow> LoadDataType \<Rightarrow> MoreFlag option \<Rightarrow> Store \<Rightarrow> Store" where
  "addData data ty more' s =
     (let r = (case data of DataArray xs \<Rightarrow> addDataArray xs ty more' s | DataSingle x \<Rightarrow> addDataSingle x s)
      in if success r then
           (let s1 = (if 0 < dataLengthChange r then resolveOverlays ty (dataLengthChange r) (store r) else store r)
            in if adjustFlag r then
                 (let s2 = adjustVisibleRange s1;
                      s3 = setCrosshair (crosshair s2) True s2;
                      s4 = addAllIndicatorCalcTasks ty s3
                  in emit ChartLayout s4)
               else s1)
         else store r)"

section \<open>The indicator task scheduler\<close>

text \<open>
  Modelled from the spec: the scheduler itself (\<open>common/TaskScheduler\<close>) is not among the
  sources.  Tasks are registered per key with replace-on-resubmit semantics; a run marks the
  indicator \<open>Loading\<close> and awaits the indicator's asynchronous computation; no cancellation
  reaches a computation in flight, so one that was started by a superseded task can still
  complete.  The handler is the one \<open>_addIndicatorCalcTask\<close> builds: it reports \<open>Loading\<close>,
  then, when the computation resolves with a true result, asks for a layout and reports
  \<open>Ready\<close>, reports nothing when it resolves with a false result, and reports \<open>Error\<close> when it
  rejects.  The reports are the calls of \<open>onDataStateChange\<close>, for an indicator that has this
  observer; the layout and the observer are taken not to throw.  Computations of one key are taken to settle oldest first; the number of reports
  does not depend on that order.
\<close>

datatype calcOutcome = Resolved bool | Rejected

type_synonym notification = "task_id \<times> IndicatorDataState \<times> LoadDataType"

record Scheduling =
  pending :: "(task_id \<times> LoadDataType) list"
  calculating :: "(task_id \<times> LoadDataType) list"
  notifications :: "notification list"
  layouts :: nat

definition idle :: Scheduling where
  "idle = \<lparr>pending = [], calculating = [], notifications = [], layouts = 0\<rparr>"

datatype taskEvent = Submit task_id LoadDataType | Run task_id | Settle task_id calcOutcome

fun eventKey :: "taskEvent \<Rightarrow> task_id" where
  "eventKey (Submit k ty) = k"
| "eventKey (Run k) = k"
| "eventKey (Settle k outcome) = k"

definition settled :: "task_id \<Rightarrow> LoadDataType \<Rightarrow> calcOutcome \<Rightarrow> notification list" where
  "settled k ty outcome =
     (case outcome of
        Resolved result \<Rightarrow> (if result then [(k, Ready, ty)] else [])
      | Rejected \<Rightarrow> [(k, Error, ty)])"

fun taskStep :: "taskEvent \<Rightarrow> Scheduling \<Rightarrow> Scheduling" where
  "taskStep (Submit k ty) s = s\<lparr>pending := addTask k ty (pending s)\<rparr>"
| "taskStep (Run k) s =
     (case map_of (pending s) k of
        None \<Rightarrow> s
      | Some ty \<Rightarrow>
          s\<lparr>pending := AList.delete k (pending s),
            calculating := calculating s @ [(k, ty)],
            notifications := notifications s @ [(k, Loading, ty)]\<rparr>)"
| "taskStep (Settle k outcome) s =
     (case map_of (calculating s) k of
        None \<Rightarrow> s
      | Some ty \<Rightarrow>
          s\<lparr>calculating := remove1 (k, ty) (calculating s),
            notifications := notifications s @ settled k ty outcome,
            layouts := (if outcome = Resolved True then layouts s + 1 else layouts s)\<rparr>)"

definition runTasks :: "taskEvent list \<Rightarrow> Scheduling \<Rightarrow> Scheduling" where
  "runTasks events s = foldl (\<lambda>s' e. taskStep e s') s events"

text \<open>The completion reports (\<open>Ready\<close> or \<open>Error\<close>) of a key, and the computations of a key in flight.\<close>

definition completions :: "task_id \<Rightarrow> Scheduling \<Rightarrow> notification list" where
  "completions k s = filter (\<lambda>n. fst n = k \<and> fst (snd n) \<noteq> Loading) (notifications s)"

definition inFlight :: "task_id \<Rightarrow> Scheduling \<Rightarrow> (task_id \<times> LoadDataType) list" where
  "inFlight k s = filter (\<lambda>c. fst c = k) (calculating s)"

definition maKey :: task_id where
  "maKey = generateTaskId ''candle_pane'' ''MA''"

definition volKey :: task_id where
  "volKey = generateTaskId ''candle_pane'' ''VOL''"

section \<open>The mutations of the store\<close>

definition setZoomEnabled :: "bool \<Rightarrow> Store \<Rightarrow> Store" where
  "setZoomEnabled enabled s = s\<lparr>zoomEnabled := enabled\<rparr>"

definition setScrollEnabled :: "bool \<Rightarrow> Store \<Rightarrow> Store" where
  "setScrollEnabled enabled s = s\<lparr>scrollEnabled := enabled\<rparr>"

definition setLoadMoreDataCallback :: "Store \<Rightarrow> Store" where
  "setLoadMoreDataCallback s = s\<lparr>hasLoadMoreDataCallback := True\<rparr>"

text \<open>The calls that change the data, the viewport or the scroll limits, as one type.\<close>

datatype mutation =
    AddData AddDataInput LoadDataType "MoreFlag option"
  | Clear
  | SetBarSpace real
  | SetTotalBarSpace real
  | SetOffsetRightDistance real bool
  | SetLastBarRightSideDiffBarCount real
  | SetMaxOffsetLeftDistance real
  | SetMaxOffsetRightDistance real
  | SetLeftMinVisibleBarCount real
  | SetRightMinVisibleBarCount real
  | SetZoomEnabled bool
  | SetScrollEnabled bool
  | SetLoadMoreDataCallback
  | StartScroll
  | Scroll real
  | Zoom real "real option"

fun mutate :: "mutation \<Rightarrow> Store \<Rightarrow> Store" where
  "mutate (AddData data ty more') s = addData data ty more' s"
| "mutate Clear s = clear s"
| "mutate (SetBarSpace b) s = setBarSpace b None s"
| "mutate (SetTotalBarSpace t) s = setTotalBarSpace t s"
| "mutate (SetOffsetRightDistance d isUpdate) s = setOffsetRightDistance d isUpdate s"
| "mutate (SetLastBarRightSideDiffBarCount c) s = setLastBarRightSideDiffBarCount c s"
| "mutate (SetMaxOffsetLeftDistance d) s = setMaxOffsetLeftDistance d s"
| "mutate (SetMaxOffsetRightDistance d) s = setMaxOffsetRightDistance d s"
| "mutate (SetLeftMinVisibleBarCount c) s = setLeftMinVisibleBarCount c s"
| "mutate (SetRightMinVisibleBarCount c) s = setRightMinVisibleBarCount c s"
| "mutate (SetZoomEnabled e) s = setZoomEnabled e s"
| "mutate (SetScrollEnabled e) s = setScrollEnabled e s"
| "mutate SetLoadMoreDataCallback s = setLoadMoreDataCallback s"
| "mutate StartScroll s = startScroll s"
| "mutate (Scroll d) s = scroll d s"
| "mutate (Zoom scale x) s = zoom scale x s"

text \<open>A mutation that does not set the width of the drawing area to a negative number.\<close>

fun nonNegativeSpace :: "mutation \<Rightarrow> bool" where
  "nonNegativeSpace (SetTotalBarSpace t) = (0 \<le> t)"
| "nonNegativeSpace _ = True"

text \<open>The stores that a new store reaches by such mutations.\<close>

inductive reachable :: "Store \<Rightarrow> bool" where
  new: "reachable (newStore fmt textWidth)"
| step: "reachable s \<Longrightarrow> nonNegativeSpace m \<Longrightarrow> reachable (mutate m s)"

definition validRange :: "Store \<Rightarrow> bool" where
  "validRange s \<longleftrightarrow>
     0 \<le> range_from (visibleRange s) \<and>
     range_from (visibleRange s) \<le> range_to (visibleRange s) \<and>
     range_to (visibleRange s) \<le> int (length (dataList s))"

text \<open>What every reachable store satisfies: a valid range, a bar space within its bounds and a
  drawing area that is not negative.\<close>

definition storeInvariant :: "Store \<Rightarrow> bool" where
  "storeInvariant s \<longleftrightarrow>
     validRange s \<and> BarSpaceLimit_MIN \<le> barSpace s \<and> barSpace s \<le> BarSpaceLimit_MAX \<and>
     0 \<le> totalBarSpace s"

section \<open>Sample data\<close>

text \<open>A date formatter, two bars and a store with them, for the concrete instances below.\<close>

definition epochDateTime :: "int \<Rightarrow> DateTime" where
  "epochDateTime t = \<lparr>YYYY = ''1970'', MM = ''01'', DD = ''01'', HH = ''00'', mm = ''00'', ss = ''00''\<rparr>"

definition bar1 :: KLineData where
  "bar1 = \<lparr>timestamp = 1, openPrice = 9, high = 10, low = 9, close = 10\<rparr>"

definition bar2 :: KLineData where
  "bar2 = \<lparr>timestamp = 2, openPrice = 10, high = 11, low = 10, close = 11\<rparr>"

definition bar3 :: KLineData where
  "bar3 = \<lparr>timestamp = 3, openPrice = 11, high = 12, low = 11, close = 12\<rparr>"

definition bar4 :: KLineData where
  "bar4 = \<lparr>timestamp = 4, openPrice = 12, high = 13, low = 12, close = 13\<rparr>"

definition emptyStore :: Store where
  "emptyStore = newStore epochDateTime 100"

text \<open>
  Two bars in a drawing area 200 pixels wide, at the default bar space 10 and the default
  right offset of 8 bars; the same with the right offset at its upper scroll limit
  \<open>200 / 10 - 2 = 18\<close>, as scrolling far to the right leaves it; and the same at bar space 1
  with a right offset of a ten-millionth of a bar.
\<close>

definition twoBarStore :: Store where
  "twoBarStore = emptyStore\<lparr>dataList := [bar1, bar2], totalBarSpace := 200, loading := False\<rparr>"

definition twoBarStoreAtLimit :: Store where
  "twoBarStoreAtLimit = twoBarStore\<lparr>lastBarRightSideDiffBarCount := 18\<rparr>"

text \<open>Three bars, scrolled one bar past the right edge (the lower scroll limit \<open>- 3 + 2\<close>).\<close>

definition threeBarStore :: Store where
  "threeBarStore = twoBarStore\<lparr>dataList := [bar1, bar2, bar3], lastBarRightSideDiffBarCount := - 1\<rparr>"



text \<open>
  Three bars loaded into a new store 200 pixels wide, and the right offset then set to \<open>-5\<close>
  by \<open>setLastBarRightSideDiffBarCount\<close>, below the lower scroll limit \<open>- 3 + 2\<close>.
\<close>

definition offLimitStore :: Store where
  "offLimitStore =
     mutate (SetLastBarRightSideDiffBarCount (- 5))
       (mutate (AddData (DataArray [bar1, bar2, bar3]) Init None)
         (mutate (SetTotalBarSpace 200) emptyStore))"

definition unitBarStore :: Store where
  "unitBarStore = twoBarStore\<lparr>barSpace := 1, lastBarRightSideDiffBarCount := 1 / 10000000\<rparr>"

section \<open>Which fields each operation leaves alone\<close>

lemma emit_keeps [simp]:
  "dataList (emit e s) = dataList s"
  "dataListMinus1 (emit e s) = dataListMinus1 s"
  "hasLoadMoreDataCallback (emit e s) = hasLoadMoreDataCallback s"
  "loading (emit e s) = loading s"
  "loadDataMore_forward (emit e s) = loadDataMore_forward s"
  "loadDataMore_backward (emit e s) = loadDataMore_backward s"
  "formatDateToDateTime (emit e s) = formatDateToDateTime s"
  "tickTextWidth (emit e s) = tickTextWidth s"
  "zoomEnabled (emit e s) = zoomEnabled s"
  "scrollEnabled (emit e s) = scrollEnabled s"
  "totalBarSpace (emit e s) = totalBarSpace s"
  "barSpace (emit e s) = barSpace s"
  "gapBarSpace (emit e s) = gapBarSpace s"
  "offsetRightDistance (emit e s) = offsetRightDistance s"
  "lastBarRightSideDiffBarCount (emit e s) = lastBarRightSideDiffBarCount s"
  "startLastBarRightSideDiffBarCount (emit e s) = startLastBarRightSideDiffBarCount s"
  "scrollLimitRole (emit e s) = scrollLimitRole s"
  "minVisibleBarCount_left (emit e s) = minVisibleBarCount_left s"
  "minVisibleBarCount_right (emit e s) = minVisibleBarCount_right s"
  "maxOffsetDistance_left (emit e s) = maxOffsetDistance_left s"
  "maxOffsetDistance_right (emit e s) = maxOffsetDistance_right s"
  "visibleRange (emit e s) = visibleRange s"
  "cacheVisibleRange (emit e s) = cacheVisibleRange s"
  "timeTicks (emit e s) = timeTicks s"
  "visibleRangeTimeTickList (emit e s) = visibleRangeTimeTickList s"
  "visibleRangeDataList (emit e s) = visibleRangeDataList s"
  "visibleRangeHighLowPrice (emit e s) = visibleRangeHighLowPrice s"
  "crosshair (emit e s) = crosshair s"
  "indicators (emit e s) = indicators s"
  "pendingTasks (emit e s) = pendingTasks s"
  "overlays (emit e s) = overlays s"
  by (simp_all add: emit_def)

lemma adjustVisibleRangeTimeTickList_keeps [simp]:
  "dataList (adjustVisibleRangeTimeTickList s) = dataList s"
  "dataListMinus1 (adjustVisibleRangeTimeTickList s) = dataListMinus1 s"
  "hasLoadMoreDataCallback (adjustVisibleRangeTimeTickList s) = hasLoadMoreDataCallback s"
  "loading (adjustVisibleRangeTimeTickList s) = loading s"
  "loadDataMore_forward (adjustVisibleRangeTimeTickList s) = loadDataMore_forward s"
  "loadDataMore_backward (adjustVisibleRangeTimeTickList s) = loadDataMore_backward s"
  "formatDateToDateTime (adjustVisibleRangeTimeTickList s) = formatDateToDateTime s"
  "tickTextWidth (adjustVisibleRangeTimeTickList s) = tickTextWidth s"
  "zoomEnabled (adjustVisibleRangeTimeTickList s) = zoomEnabled s"
  "scrollEnabled (adjustVisibleRangeTimeTickList s) = scrollEnabled s"
  "totalBarSpace (adjustVisibleRangeTimeTickList s) = totalBarSpace s"
  "barSpace (adjustVisibleRangeTimeTickList s) = barSpace s"
  "gapBarSpace (adjustVisibleRangeTimeTickList s) = gapBarSpace s"
  "offsetRightDistance (adjustVisibleRangeTimeTickList s) = offsetRightDistance s"
  "lastBarRightSideDiffBarCount (adjustVisibleRangeTimeTickList s) = lastBarRightSideDiffBarCount s"
  "startLastBarRightSideDiffBarCount (adjustVisibleRangeTimeTickList s) = startLastBarRightSideDiffBarCount s"
  "scrollLimitRole (adjustVisibleRangeTimeTickList s) = scrollLimitRole s"
  "minVisibleBarCount_left (adjustVisibleRangeTimeTickList s) = minVisibleBarCount_left s"
  "minVisibleBarCount_right (adjustVisibleRangeTimeTickList s) = minVisibleBarCount_right s"
  "maxOffsetDistance_left (adjustVisibleRangeTimeTickList s) = maxOffsetDistance_left s"
  "maxOffsetDistance_right (adjustVisibleRangeTimeTickList s) = maxOffsetDistance_right s"
  "visibleRange (adjustVisibleRangeTimeTickList s) = visibleRange s"
  "cacheVisibleRange (adjustVisibleRangeTimeTickList s) = cacheVisibleRange s"
  "timeTicks (adjustVisibleRangeTimeTickList s) = timeTicks s"
  "visibleRangeDataList (adjustVisibleRangeTimeTickList s) = visibleRangeDataList s"
  "visibleRangeHighLowPrice (adjustVisibleRangeTimeTickList s) = visibleRangeHighLowPrice s"
  "crosshair (adjustVisibleRangeTimeTickList s) = crosshair s"
  "indicators (adjustVisibleRangeTimeTickList s) = indicators s"
  "pendingTasks (adjustVisibleRangeTimeTickList s) = pendingTasks s"
  "overlays (adjustVisibleRangeTimeTickList s) = overlays s"
  "effects (adjustVisibleRangeTimeTickList s) = effects s"
  by (simp_all add: adjustVisibleRangeTimeTickList_def)

lemma loadMore_keeps [simp]:
  "dataList (loadMore s) = dataList s"
  "dataListMinus1 (loadMore s) = dataListMinus1 s"
  "hasLoadMoreDataCallback (loadMore s) = hasLoadMoreDataCallback s"
  "loadDataMore_forward (loadMore s) = loadDataMore_forward s"
  "loadDataMore_backward (loadMore s) = loadDataMore_backward s"
  "formatDateToDateTime (loadMore s) = formatDateToDateTime s"
  "tickTextWidth (loadMore s) = tickTextWidth s"
  "zoomEnabled (loadMore s) = zoomEnabled s"
  "scrollEnabled (loadMore s) = scrollEnabled s"
  "totalBarSpace (loadMore s) = totalBarSpace s"
  "barSpace (loadMore s) = barSpace s"
  "gapBarSpace (loadMore s) = gapBarSpace s"
  "offsetRightDistance (loadMore s) = offsetRightDistance s"
  "lastBarRightSideDiffBarCount (loadMore s) = lastBarRightSideDiffBarCount s"
  "startLastBarRightSideDiffBarCount (loadMore s) = startLastBarRightSideDiffBarCount s"
  "scrollLimitRole (loadMore s) = scrollLimitRole s"
  "minVisibleBarCount_left (loadMore s) = minVisibleBarCount_left s"
  "minVisibleBarCount_right (loadMore s) = minVisibleBarCount_right s"
  "maxOffsetDistance_left (loadMore s) = maxOffsetDistance_left s"
  "maxOffsetDistance_right (loadMore s) = maxOffsetDistance_right s"
  "visibleRange (loadMore s) = visibleRange s"
  "cacheVisibleRange (loadMore s) = cacheVisibleRange s"
  "timeTicks (loadMore s) = timeTicks s"
  "visibleRangeTimeTickList (loadMore s) = visibleRangeTimeTickList s"
  "visibleRangeDataList (loadMore s) = visibleRangeDataList s"
  "visibleRangeHighLowPrice (loadMore s) = visibleRangeHighLowPrice s"
  "crosshair (loadMore s) = crosshair s"
  "indicators (loadMore s) = indicators s"
  "pendingTasks (loadMore s) = pendingTasks s"
  "overlays (loadMore s) = overlays s"
  by (simp_all add: loadMore_def Let_def emit_def)

lemma classifyTimeTicks_keeps [simp]:
  "dataList (classifyTimeTicks xs u s) = dataList s"
  "dataListMinus1 (classifyTimeTicks xs u s) = dataListMinus1 s"
  "hasLoadMoreDataCallback (classifyTimeTicks xs u s) = hasLoadMoreDataCallback s"
  "loading (classifyTimeTicks xs u s) = loading s"
  "loadDataMore_forward (classifyTimeTicks xs u s) = loadDataMore_forward s"
  "loadDataMore_backward (classifyTimeTicks xs u s) = loadDataMore_backward s"
  "formatDateToDateTime (classifyTimeTicks xs u s) = formatDateToDateTime s"
  "tickTextWidth (classifyTimeTicks xs u s) = tickTextWidth s"
  "zoomEnabled (classifyTimeTicks xs u s) = zoomEnabled s"
  "scrollEnabled (classifyTimeTicks xs u s) = scrollEnabled s"
  "totalBarSpace (classifyTimeTicks xs u s) = totalBarSpace s"
  "barSpace (classifyTimeTicks xs u s) = barSpace s"
  "gapBarSpace (classifyTimeTicks xs u s) = gapBarSpace s"
  "offsetRightDistance (classifyTimeTicks xs u s) = offsetRightDistance s"
  "lastBarRightSideDiffBarCount (classifyTimeTicks xs u s) = lastBarRightSideDiffBarCount s"
  "startLastBarRightSideDiffBarCount (classifyTimeTicks xs u s) = startLastBarRightSideDiffBarCount s"
  "scrollLimitRole (classifyTimeTicks xs u s) = scrollLimitRole s"
  "minVisibleBarCount_left (classifyTimeTicks xs u s) = minVisibleBarCount_left s"
  "minVisibleBarCount_right (classifyTimeTicks xs u s) = minVisibleBarCount_right s"
  "maxOffsetDistance_left (classifyTimeTicks xs u s) = maxOffsetDistance_left s"
  "maxOffsetDistance_right (classifyTimeTicks xs u s) = maxOffsetDistance_right s"
  "visibleRange (classifyTimeTicks xs u s) = visibleRange s"
  "cacheVisibleRange (classifyTimeTicks xs u s) = cacheVisibleRange s"
  "visibleRangeTimeTickList (classifyTimeTicks xs u s) = visibleRangeTimeTickList s"
  "visibleRangeDataList (classifyTimeTicks xs u s) = visibleRangeDataList s"
  "visibleRangeHighLowPrice (classifyTimeTicks xs u s) = visibleRangeHighLowPrice s"
  "crosshair (classifyTimeTicks xs u s) = crosshair s"
  "indicators (classifyTimeTicks xs u s) = indicators s"
  "pendingTasks (classifyTimeTicks xs u s) = pendingTasks s"
  "overlays (classifyTimeTicks xs u s) = overlays s"
  "effects (classifyTimeTicks xs u s) = effects s"
  by (simp_all add: classifyTimeTicks_def)

lemma resolveOverlays_keeps [simp]:
  "dataList (resolveOverlays ty c s) = dataList s"
  "dataListMinus1 (resolveOverlays ty c s) = dataListMinus1 s"
  "hasLoadMoreDataCallback (resolveOverlays ty c s) = hasLoadMoreDataCallback s"
  "loading (resolveOverlays ty c s) = loading s"
  "loadDataMore_forward (resolveOverlays ty c s) = loadDataMore_forward s"
  "loadDataMore_backward (resolveOverlays ty c s) = loadDataMore_backward s"
  "formatDateToDateTime (resolveOverlays ty c s) = formatDateToDateTime s"
  "tickTextWidth (resolveOverlays ty c s) = tickTextWidth s"
  "zoomEnabled (resolveOverlays ty c s) = zoomEnabled s"
  "scrollEnabled (resolveOverlays ty c s) = scrollEnabled s"
  "totalBarSpace (resolveOverlays ty c s) = totalBarSpace s"
  "barSpace (resolveOverlays ty c s) = barSpace s"
  "gapBarSpace (resolveOverlays ty c s) = gapBarSpace s"
  "offsetRightDistance (resolveOverlays ty c s) = offsetRightDistance s"
  "lastBarRightSideDiffBarCount (resolveOverlays ty c s) = lastBarRightSideDiffBarCount s"
  "startLastBarRightSideDiffBarCount (resolveOverlays ty c s) = startLastBarRightSideDiffBarCount s"
  "scrollLimitRole (resolveOverlays ty c s) = scrollLimitRole s"
  "minVisibleBarCount_left (resolveOverlays ty c s) = minVisibleBarCount_left s"
  "minVisibleBarCount_right (resolveOverlays ty c s) = minVisibleBarCount_right s"
  "maxOffsetDistance_left (resolveOverlays ty c s) = maxOffsetDistance_left s"
  "maxOffsetDistance_right (resolveOverlays ty c s) = maxOffsetDistance_right s"
  "visibleRange (resolveOverlays ty c s) = visibleRange s"
  "cacheVisibleRange (resolveOverlays ty c s) = cacheVisibleRange s"
  "timeTicks (resolveOverlays ty c s) = timeTicks s"
  "visibleRangeTimeTickList (resolveOverlays ty c s) = visibleRangeTimeTickList s"
  "visibleRangeDataList (resolveOverlays ty c s) = visibleRangeDataList s"
  "visibleRangeHighLowPrice (resolveOverlays ty c s) = visibleRangeHighLowPrice s"
  "crosshair (resolveOverlays ty c s) = crosshair s"
  "indicators (resolveOverlays ty c s) = indicators s"
  "pendingTasks (resolveOverlays ty c s) = pendingTasks s"
  "effects (resolveOverlays ty c s) = effects s"
  by (simp_all add: resolveOverlays_def)

lemma addAllIndicatorCalcTasks_keeps [simp]:
  "dataList (addAllIndicatorCalcTasks ty s) = dataList s"
  "dataListMinus1 (addAllIndicatorCalcTasks ty s) = dataListMinus1 s"
  "hasLoadMoreDataCallback (addAllIndicatorCalcTasks ty s) = hasLoadMoreDataCallback s"
  "loading (addAllIndicatorCalcTasks ty s) = loading s"
  "loadDataMore_forward (addAllIndicatorCalcTasks ty s) = loadDataMore_forward s"
  "loadDataMore_backward (addAllIndicatorCalcTasks ty s) = loadDataMore_backward s"
  "formatDateToDateTime (addAllIndicatorCalcTasks ty s) = formatDateToDateTime s"
  "tickTextWidth (addAllIndicatorCalcTasks ty s) = tickTextWidth s"
  "zoomEnabled (addAllIndicatorCalcTasks ty s) = zoomEnabled s"
  "scrollEnabled (addAllIndicatorCalcTasks ty s) = scrollEnabled s"
  "totalBarSpace (addAllIndicatorCalcTasks ty s) = totalBarSpace s"
  "barSpace (addAllIndicatorCalcTasks ty s) = barSpace s"
  "gapBarSpace (addAllIndicatorCalcTasks ty s) = gapBarSpace s"
  "offsetRightDistance (addAllIndicatorCalcTasks ty s) = offsetRightDistance s"
  "lastBarRightSideDiffBarCount (addAllIndicatorCalcTasks ty s) = lastBarRightSideDiffBarCount s"
  "startLastBarRightSideDiffBarCount (addAllIndicatorCalcTasks ty s) = startLastBarRightSideDiffBarCount s"
  "scrollLimitRole (addAllIndicatorCalcTasks ty s) = scrollLimitRole s"
  "minVisibleBarCount_left (addAllIndicatorCalcTasks ty s) = minVisibleBarCount_left s"
  "minVisibleBarCount_right (addAllIndicatorCalcTasks ty s) = minVisibleBarCount_right s"
  "maxOffsetDistance_left (addAllIndicatorCalcTasks ty s) = maxOffsetDistance_left s"
  "maxOffsetDistance_right (addAllIndicatorCalcTasks ty s) = maxOffsetDistance_right s"
  "visibleRange (addAllIndicatorCalcTasks ty s) = visibleRange s"
  "cacheVisibleRange (addAllIndicatorCalcTasks ty s) = cacheVisibleRange s"
  "timeTicks (addAllIndicatorCalcTasks ty s) = timeTicks s"
  "visibleRangeTimeTickList (addAllIndicatorCalcTasks ty s) = visibleRangeTimeTickList s"
  "visibleRangeDataList (addAllIndicatorCalcTasks ty s) = visibleRangeDataList s"
  "visibleRangeHighLowPrice (addAllIndicatorCalcTasks ty s) = visibleRangeHighLowPrice s"
  "crosshair (addAllIndicatorCalcTasks ty s) = crosshair s"
  "indicators (addAllIndicatorCalcTasks ty s) = indicators s"
  "overlays (addAllIndicatorCalcTasks ty s) = overlays s"
  "effects (addAllIndicatorCalcTasks ty s) = effects s"
  by (simp_all add: addAllIndicatorCalcTasks_def)

lemma setCrosshair_keeps [simp]:
  "dataList (setCrosshair cr b s) = dataList s"
  "dataListMinus1 (setCrosshair cr b s) = dataListMinus1 s"
  "hasLoadMoreDataCallback (setCrosshair cr b s) = hasLoadMoreDataCallback s"
  "loading (setCrosshair cr b s) = loading s"
  "loadDataMore_forward (setCrosshair cr b s) = loadDataMore_forward s"
  "loadDataMore_backward (setCrosshair cr b s) = loadDataMore_backward s"
  "formatDateToDateTime (setCrosshair cr b s) = formatDateToDateTime s"
  "tickTextWidth (setCrosshair cr b s) = tickTextWidth s"
  "zoomEnabled (setCrosshair cr b s) = zoomEnabled s"
  "scrollEnabled (setCrosshair cr b s) = scrollEnabled s"
  "totalBarSpace (setCrosshair cr b s) = totalBarSpace s"
  "barSpace (setCrosshair cr b s) = barSpace s"
  "gapBarSpace (setCrosshair cr b s) = gapBarSpace s"
  "offsetRightDistance (setCrosshair cr b s) = offsetRightDistance s"
  "lastBarRightSideDiffBarCount (setCrosshair cr b s) = lastBarRightSideDiffBarCount s"
  "startLastBarRightSideDiffBarCount (setCrosshair cr b s) = startLastBarRightSideDiffBarCount s"
  "scrollLimitRole (setCrosshair cr b s) = scrollLimitRole s"
  "minVisibleBarCount_left (setCrosshair cr b s) = minVisibleBarCount_left s"
  "minVisibleBarCount_right (setCrosshair cr b s) = minVisibleBarCount_right s"
  "maxOffsetDistance_left (setCrosshair cr b s) = maxOffsetDistance_left s"
  "maxOffsetDistance_right (setCrosshair cr b s) = maxOffsetDistance_right s"
  "visibleRange (setCrosshair cr b s) = visibleRange s"
  "cacheVisibleRange (setCrosshair cr b s) = cacheVisibleRange s"
  "timeTicks (setCrosshair cr b s) = timeTicks s"
  "visibleRangeTimeTickList (setCrosshair cr b s) = visibleRangeTimeTickList s"
  "visibleRangeDataList (setCrosshair cr b s) = visibleRangeDataList s"
  "visibleRangeHighLowPrice (setCrosshair cr b s) = visibleRangeHighLowPrice s"
  "indicators (setCrosshair cr b s) = indicators s"
  "pendingTasks (setCrosshair cr b s) = pendingTasks s"
  "overlays (setCrosshair cr b s) = overlays s"
  by (simp_all add: setCrosshair_def Let_def emit_def)

lemma adjustVisibleRange_keeps [simp]:
  "dataList (adjustVisibleRange s) = dataList s"
  "dataListMinus1 (adjustVisibleRange s) = dataListMinus1 s"
  "hasLoadMoreDataCallback (adjustVisibleRange s) = hasLoadMoreDataCallback s"
  "loadDataMore_forward (adjustVisibleRange s) = loadDataMore_forward s"
  "loadDataMore_backward (adjustVisibleRange s) = loadDataMore_backward s"
  "formatDateToDateTime (adjustVisibleRange s) = formatDateToDateTime s"
  "tickTextWidth (adjustVisibleRange s) = tickTextWidth s"
  "zoomEnabled (adjustVisibleRange s) = zoomEnabled s"
  "scrollEnabled (adjustVisibleRange s) = scrollEnabled s"
  "totalBarSpace (adjustVisibleRange s) = totalBarSpace s"
  "barSpace (adjustVisibleRange s) = barSpace s"
  "gapBarSpace (adjustVisibleRange s) = gapBarSpace s"
  "offsetRightDistance (adjustVisibleRange s) = offsetRightDistance s"
  "startLastBarRightSideDiffBarCount (adjustVisibleRange s) = startLastBarRightSideDiffBarCount s"
  "scrollLimitRole (adjustVisibleRange s) = scrollLimitRole s"
  "minVisibleBarCount_left (adjustVisibleRange s) = minVisibleBarCount_left s"
  "minVisibleBarCount_right (adjustVisibleRange s) = minVisibleBarCount_right s"
  "maxOffsetDistance_left (adjustVisibleRange s) = maxOffsetDistance_left s"
  "maxOffsetDistance_right (adjustVisibleRange s) = maxOffsetDistance_right s"
  "timeTicks (adjustVisibleRange s) = timeTicks s"
  "crosshair (adjustVisibleRange s) = crosshair s"
  "indicators (adjustVisibleRange s) = indicators s"
  "pendingTasks (adjustVisibleRange s) = pendingTasks s"
  "overlays (adjustVisibleRange s) = overlays s"
  by (simp_all add: adjustVisibleRange_def Let_def)

lemma adjustVisibleRange_sets [simp]:
  "lastBarRightSideDiffBarCount (adjustVisibleRange s) = limitedDiffBarCount s"
  "visibleRange (adjustVisibleRange s) =
     calcVisibleRange (s\<lparr>lastBarRightSideDiffBarCount := limitedDiffBarCount s\<rparr>)"
  by (simp_all add: adjustVisibleRange_def Let_def)

lemma withinScrollLimits_limited:
  "withinScrollLimits s \<Longrightarrow> limitedDiffBarCount s = lastBarRightSideDiffBarCount s"
  by (auto simp: withinScrollLimits_def limitedDiffBarCount_def Let_def)

section \<open>The sample stores\<close>

lemma emptyStore_fields:
  "dataList emptyStore = []" "totalBarSpace emptyStore = 0" "barSpace emptyStore = 10"
  "lastBarRightSideDiffBarCount emptyStore = 8" "scrollLimitRole emptyStore = BarCount"
  "minVisibleBarCount_left emptyStore = 2" "minVisibleBarCount_right emptyStore = 2"
  by (simp_all add: emptyStore_def newStore_def DEFAULT_BAR_SPACE_def DEFAULT_OFFSET_RIGHT_DISTANCE_def)

lemma twoBarStore_fields:
  "dataList twoBarStore = [bar1, bar2]" "totalBarSpace twoBarStore = 200" "barSpace twoBarStore = 10"
  "lastBarRightSideDiffBarCount twoBarStore = 8" "zoomEnabled twoBarStore"
  "scrollLimitRole twoBarStore = BarCount" "minVisibleBarCount_left twoBarStore = 2"
  "minVisibleBarCount_right twoBarStore = 2"
  by (simp_all add: twoBarStore_def emptyStore_def newStore_def DEFAULT_BAR_SPACE_def
      DEFAULT_OFFSET_RIGHT_DISTANCE_def)

lemma twoBarStoreAtLimit_fields:
  "dataList twoBarStoreAtLimit = [bar1, bar2]" "totalBarSpace twoBarStoreAtLimit = 200"
  "barSpace twoBarStoreAtLimit = 10" "lastBarRightSideDiffBarCount twoBarStoreAtLimit = 18"
  "zoomEnabled twoBarStoreAtLimit" "scrollLimitRole twoBarStoreAtLimit = BarCount"
  "minVisibleBarCount_left twoBarStoreAtLimit = 2" "minVisibleBarCount_right twoBarStoreAtLimit = 2"
  by (simp_all add: twoBarStoreAtLimit_def twoBarStore_fields)

lemma threeBarStore_fields:
  "dataList threeBarStore = [bar1, bar2, bar3]" "totalBarSpace threeBarStore = 200"
  "barSpace threeBarStore = 10" "lastBarRightSideDiffBarCount threeBarStore = - 1"
  "scrollLimitRole threeBarStore = BarCount" "minVisibleBarCount_left threeBarStore = 2"
  "minVisibleBarCount_right threeBarStore = 2"
  by (simp_all add: threeBarStore_def twoBarStore_fields)

lemma threeBarStore_withinScrollLimits: "withinScrollLimits threeBarStore"
  by (simp add: withinScrollLimits_def maxRightOffsetBarCount_def minRightOffsetBarCount_def
      leftMinVisibleBarCount_def rightMinVisibleBarCount_def threeBarStore_fields)

section \<open>The gap bar space\<close>

lemma calcOptimalBarSpace_bounds:
  assumes "1 \<le> b"
  shows "1 \<le> calcOptimalBarSpace b"
    and "real_of_int (calcOptimalBarSpace b) \<le> b"
    and "odd (calcOptimalBarSpace b) \<or> real_of_int (calcOptimalBarSpace b) + 2 < b"
proof -
  define g where "g = min \<lfloor>b * (1 - BAR_GAP_RATIO * arctan (max 4 b - 4) / (pi * (1 / 2)))\<rfloor> \<lfloor>b\<rfloor>"
  have c: "calcOptimalBarSpace b = max 1 (if g mod 2 = 0 \<and> b \<le> real_of_int g + 2 then g - 1 else g)"
    unfolding calcOptimalBarSpace_def Let_def g_def by simp
  have gb: "real_of_int g \<le> b"
    unfolding g_def by (simp add: min_def) linarith
  show "1 \<le> calcOptimalBarSpace b"
    unfolding c by simp
  show "real_of_int (calcOptimalBarSpace b) \<le> b"
    unfolding c using gb assms by (simp add: max_def)
  show "odd (calcOptimalBarSpace b) \<or> real_of_int (calcOptimalBarSpace b) + 2 < b"
  proof (cases "g mod 2 = 0 \<and> b \<le> real_of_int g + 2")
    case True
    then have "even g" by presburger
    then have "odd (max 1 (g - 1))" by (simp add: max_def)
    with True show ?thesis unfolding c by simp
  next
    case False
    then show ?thesis unfolding c using assms by (auto simp: max_def)
  qed
qed

lemma arctan_ninth: "arctan (1 / 9) < pi / 16"
proof -
  have d1: "2 * arctan (1 / 9) = arctan (9 / 40)"
    using arctan_double [of "1 / 9"] by (simp add: power2_eq_square)
  have d2: "2 * arctan (9 / 40) = arctan (720 / 1519)"
    using arctan_double [of "9 / 40"] by (simp add: power2_eq_square)
  have "arctan (720 / 1519) < arctan 1"
    by (simp add: arctan_less_iff)
  then have "4 * arctan (1 / 9) < pi / 4"
    using d1 d2 by (simp add: arctan_one)
  then show ?thesis by simp
qed

lemma calcOptimalBarSpace_13: "calcOptimalBarSpace 13 = 10"
proof -
  have inv: "arctan 9 = pi / 2 - arctan (1 / 9)"
    using arctan_inverse [of 9] by (simp add: sgn_if)
  define a where "a = arctan (1 / 9 :: real) / pi"
  have ratio: "1 - (2 / 10) * arctan 9 / (pi * (1 / 2)) = 8 / 10 + (4 / 10) * a"
    unfolding inv a_def using pi_gt_zero by (simp add: field_simps)
  have lo: "0 \<le> a"
    unfolding a_def by simp
  have "arctan (1 / 9) / pi < (pi / 16) / pi"
    using arctan_ninth pi_gt_zero by (rule divide_strict_right_mono)
  then have hi: "a < 1 / 16"
    unfolding a_def by simp
  have f: "\<lfloor>13 * (8 / 10 + (4 / 10) * a)\<rfloor> = 10"
    using lo hi by (simp add: floor_eq_iff)
  show ?thesis
    unfolding calcOptimalBarSpace_def Let_def BAR_GAP_RATIO_def
    using f ratio by simp
qed

lemma setBarSpace_gapBarSpace:
  assumes "BarSpaceLimit_MIN \<le> b" "b \<le> BarSpaceLimit_MAX" "barSpace s \<noteq> b"
  shows "gapBarSpace (setBarSpace b None s) = calcOptimalBarSpace b"
  using assms by (simp add: setBarSpace_def Let_def)

text \<open>
  C4 (as stated, refuted): bar space 13 is accepted by \<open>setBarSpace\<close>, and the gap it computes
  is 10 pixels, an even number: \<open>13 * ratio\<close> lies between 10 and 11, and the parity step
  leaves an even gap alone when \<open>gap + 2 < barSpace\<close>.
\<close>

theorem gapBarSpace_even_at_13:
  "BarSpaceLimit_MIN \<le> 13 \<and> 13 \<le> BarSpaceLimit_MAX \<and> barSpace emptyStore \<noteq> 13 \<and>
   gapBarSpace (setBarSpace 13 None emptyStore) = 10 \<and> \<not> odd (10 :: int)"
proof -
  have acc: "BarSpaceLimit_MIN \<le> 13" "13 \<le> BarSpaceLimit_MAX" "barSpace emptyStore \<noteq> 13"
    by (simp_all add: BarSpaceLimit_MIN_def BarSpaceLimit_MAX_def emptyStore_fields)
  then show ?thesis
    by (simp add: setBarSpace_gapBarSpace calcOptimalBarSpace_13)
qed

text \<open>
  C4 (amended): for every bar space that \<open>setBarSpace\<close> accepts, the recomputed gap is an
  integer of at least 1 pixel and at most the bar space, and it is odd unless it is more than
  2 pixels narrower than the bar (\<open>gap + 2 < barSpace\<close>).
\<close>

theorem gapBarSpace_after_setBarSpace:
  assumes "BarSpaceLimit_MIN \<le> b" and "b \<le> BarSpaceLimit_MAX" and "barSpace s \<noteq> b"
  shows "1 \<le> gapBarSpace (setBarSpace b None s) \<and>
         real_of_int (gapBarSpace (setBarSpace b None s)) \<le> b \<and>
         (odd (gapBarSpace (setBarSpace b None s)) \<or>
          real_of_int (gapBarSpace (setBarSpace b None s)) + 2 < b)"
proof -
  have "1 \<le> b"
    using assms(1) by (simp add: BarSpaceLimit_MIN_def)
  then show ?thesis
    using calcOptimalBarSpace_bounds [of b] setBarSpace_gapBarSpace [OF assms] by simp
qed

theorem gapBarSpace_after_setBarSpace_witness:
  "BarSpaceLimit_MIN \<le> 13 \<and> 13 \<le> BarSpaceLimit_MAX \<and> barSpace emptyStore \<noteq> 13 \<and>
   1 \<le> gapBarSpace (setBarSpace 13 None emptyStore) \<and>
   real_of_int (gapBarSpace (setBarSpace 13 None emptyStore)) \<le> 13 \<and>
   real_of_int (gapBarSpace (setBarSpace 13 None emptyStore)) + 2 < 13"
proof -
  have acc: "BarSpaceLimit_MIN \<le> 13" "13 \<le> BarSpaceLimit_MAX" "barSpace emptyStore \<noteq> 13"
    by (simp_all add: BarSpaceLimit_MIN_def BarSpaceLimit_MAX_def emptyStore_fields)
  have g: "gapBarSpace (setBarSpace 13 None emptyStore) = 10"
    by (simp add: setBarSpace_gapBarSpace [OF acc] calcOptimalBarSpace_13)
  show ?thesis
    using acc gapBarSpace_after_setBarSpace [OF acc] by (simp add: g)
qed

section \<open>Index to pixel\<close>

text \<open>
  C5: \<open>dataIndexToCoordinate(i)\<close> is
  \<open>floor(totalBarSpace - (dataCount + diffBarCount - i - 0.5) * barSpace + 0.5)\<close>, an integer
  pixel.  It reads the store and writes nothing: the result is a function of the store and
  the index alone, so two calls with no change of the store between them agree.
\<close>

theorem dataIndexToCoordinate_formula:
  "dataIndexToCoordinate s i =
     \<lfloor>totalBarSpace s
        - (real (length (dataList s)) + lastBarRightSideDiffBarCount s - real_of_int i - 1 / 2) * barSpace s
        + 1 / 2\<rfloor>"
  by (simp add: dataIndexToCoordinate_def Let_def)

section \<open>Bar space out of bounds\<close>

text \<open>
  C8: \<open>setBarSpace\<close> with a bar space below 1 or above 50 returns the store as it was: the
  bar space, every other field and the record of layouts and events are unchanged.
\<close>

theorem setBarSpace_out_of_range:
  assumes "newBarSpace < 1 \<or> 50 < newBarSpace"
  shows "setBarSpace newBarSpace adjustBeforeFunc s = s"
  using assms by (auto simp add: setBarSpace_def BarSpaceLimit_MIN_def BarSpaceLimit_MAX_def)

theorem setBarSpace_out_of_range_witness:
  "setBarSpace 0 None twoBarStore = twoBarStore \<and> setBarSpace 51 None twoBarStore = twoBarStore"
  using setBarSpace_out_of_range [of 0 None twoBarStore] setBarSpace_out_of_range [of 51 None twoBarStore]
  by simp

section \<open>The continuation flags of an initial load\<close>



section \<open>Index to pixel and back\<close>

lemma roundtrip_index:
  fixes T d b :: real and n :: nat and i :: int
  assumes b: "1 \<le> b"
  defines "X0 \<equiv> T - (real n + d - real_of_int i - 1 / 2) * b"
  defines "x \<equiv> \<lfloor>X0 + 1 / 2\<rfloor>"
  defines "index \<equiv> real n + d - (T - real_of_int x) / b"
  shows "real_of_int i < index" and "index \<le> real_of_int i + 1"
    and "1000000 \<le> 999999 * b \<Longrightarrow> real_of_int i + 1 / 2000000 \<le> index"
proof -
  have bp: "0 < b" using b by simp
  have e1: "real_of_int x \<le> X0 + 1 / 2" unfolding x_def by linarith
  have e2: "X0 - 1 / 2 < real_of_int x" unfolding x_def by linarith
  have idx: "index = real_of_int i + 1 / 2 + (real_of_int x - X0) / b"
    unfolding index_def X0_def using bp by (simp add: field_simps)
  have u: "(real_of_int x - X0) / b \<le> (1 / 2) / b"
    using e1 bp by (intro divide_right_mono) simp_all
  have l: "- (1 / 2) / b < (real_of_int x - X0) / b"
    using e2 bp by (intro divide_strict_right_mono) simp_all
  have hb: "(1 / 2) / b \<le> 1 / 2" using b by (simp add: field_simps)
  show "real_of_int i < index" using idx l hb by linarith
  show "index \<le> real_of_int i + 1" using idx u hb by linarith
  assume big: "1000000 \<le> 999999 * b"
  have "(1 / 2) / b \<le> 999999 / 2000000" using big bp by (simp add: field_simps)
  then show "real_of_int i + 1 / 2000000 \<le> index" using idx l by linarith
qed

lemma round6_ceiling:
  fixes index :: real and i :: int
  assumes "real_of_int i < index" "index \<le> real_of_int i + 1"
  defines "fl \<equiv> real_of_int (js_round (index * 1000000)) / 1000000"
  shows "\<lceil>fl\<rceil> - 1 = i \<or> \<lceil>fl\<rceil> - 1 = i - 1"
    and "real_of_int i + 1 / 2000000 \<le> index \<Longrightarrow> \<lceil>fl\<rceil> - 1 = i"
proof -
  define k where "k = js_round (index * 1000000)"
  have fl: "fl = real_of_int k / 1000000" unfolding fl_def k_def ..
  have k_lo: "i * 1000000 \<le> k"
    unfolding k_def js_round_def using assms(1) by (simp add: le_floor_iff)
  have k_hi: "k \<le> (i + 1) * 1000000"
    unfolding k_def js_round_def using assms(2) by (simp add: floor_le_iff)
  have c_hi: "\<lceil>fl\<rceil> \<le> i + 1"
    unfolding fl using k_hi by (simp add: ceiling_le_iff) 
  have c_lo: "i \<le> \<lceil>fl\<rceil>"
  proof -
    have "real_of_int i \<le> fl" unfolding fl using k_lo by simp
    then show ?thesis by (simp add: le_ceiling_iff)
  qed
  show "\<lceil>fl\<rceil> - 1 = i \<or> \<lceil>fl\<rceil> - 1 = i - 1" using c_hi c_lo by linarith
  assume "real_of_int i + 1 / 2000000 \<le> index"
  then have "i * 1000000 + 1 \<le> k"
    unfolding k_def js_round_def by (simp add: le_floor_iff)
  then have "real_of_int i < fl" unfolding fl by simp
  then have "i < \<lceil>fl\<rceil>" by (simp add: less_ceiling_iff)
  then show "\<lceil>fl\<rceil> - 1 = i" using c_hi by linarith
qed

text \<open>
  C2: for every data index \<open>i\<close> and every store with a bar space in \<open>[1, 50]\<close> (any total
  space, any right offset, any data), \<open>coordinateToDataIndex(dataIndexToCoordinate(i))\<close> is
  \<open>i\<close> up to a tolerance that depends on the bar space: it is \<open>i\<close> or \<open>i - 1\<close>, and it is
  exactly \<open>i\<close> as soon as the bar space is at least \<open>1000000 / 999999\<close>, where the rounding
  of the float index to six decimals cannot reach the integer below the bar's centre.
\<close>

theorem coordinate_round_trip:
  assumes "1 \<le> barSpace s" and "barSpace s \<le> 50"
  shows "(coordinateToDataIndex s (real_of_int (dataIndexToCoordinate s i)) = i \<or>
          coordinateToDataIndex s (real_of_int (dataIndexToCoordinate s i)) = i - 1) \<and>
         (1000000 \<le> 999999 * barSpace s \<longrightarrow>
          coordinateToDataIndex s (real_of_int (dataIndexToCoordinate s i)) = i)"
proof -
  define index where "index = real (length (dataList s)) + lastBarRightSideDiffBarCount s
      - (totalBarSpace s - real_of_int (dataIndexToCoordinate s i)) / barSpace s"
  have c: "coordinateToDataIndex s (real_of_int (dataIndexToCoordinate s i))
      = \<lceil>real_of_int (js_round (index * 1000000)) / 1000000\<rceil> - 1"
    by (simp add: coordinateToDataIndex_def coordinateToFloatIndex_def Let_def index_def)
  have lo: "real_of_int i < index" and hi: "index \<le> real_of_int i + 1"
    and ex: "1000000 \<le> 999999 * barSpace s \<Longrightarrow> real_of_int i + 1 / 2000000 \<le> index"
    using roundtrip_index [OF assms(1), where T = "totalBarSpace s" and n = "length (dataList s)"
        and d = "lastBarRightSideDiffBarCount s" and i = i]
    unfolding index_def dataIndexToCoordinate_def Let_def by simp_all
  show ?thesis
    unfolding c using round6_ceiling [OF lo hi] ex by blast
qed

theorem coordinate_round_trip_witness:
  "1 \<le> barSpace twoBarStore \<and> barSpace twoBarStore \<le> 50 \<and> 1000000 \<le> 999999 * barSpace twoBarStore \<and>
   coordinateToDataIndex twoBarStore (real_of_int (dataIndexToCoordinate twoBarStore 1)) = 1"
proof -
  have b: "barSpace twoBarStore = 10"
    by (simp add: twoBarStore_def emptyStore_def newStore_def DEFAULT_BAR_SPACE_def)
  show ?thesis
    using coordinate_round_trip [of twoBarStore 1] by (simp add: b)
qed

text \<open>The lower index does occur at bar space 1, so the tolerance cannot be dropped.\<close>

lemma round_trip_one_below_at_barSpace_1:
  "barSpace unitBarStore = 1 \<and>
   coordinateToDataIndex unitBarStore (real_of_int (dataIndexToCoordinate unitBarStore 1)) = 0"
  by (simp add: unitBarStore_def twoBarStore_def emptyStore_def newStore_def coordinateToDataIndex_def
      coordinateToFloatIndex_def dataIndexToCoordinate_def js_round_def Let_def)

section \<open>Zooming around a pixel\<close>

lemma coordinateToFloatIndex_cong:
  assumes "length (dataList s') = length (dataList s)" "totalBarSpace s' = totalBarSpace s"
    "barSpace s' = barSpace s" "lastBarRightSideDiffBarCount s' = lastBarRightSideDiffBarCount s"
  shows "coordinateToFloatIndex s' x = coordinateToFloatIndex s x"
  using assms by (simp add: coordinateToFloatIndex_def)

lemma zoom_accepted:
  assumes "zoomEnabled s" "BarSpaceLimit_MIN \<le> zoomBarSpace s scale"
    "zoomBarSpace s scale \<le> BarSpaceLimit_MAX" "zoomBarSpace s scale \<noteq> barSpace s"
  shows "dataList (zoom scale (Some x) s) = dataList s"
    and "totalBarSpace (zoom scale (Some x) s) = totalBarSpace s"
    and "barSpace (zoom scale (Some x) s) = zoomBarSpace s scale"
    and "lastBarRightSideDiffBarCount (zoom scale (Some x) s) = limitedDiffBarCount (zoomShifted scale x s)"
  using assms
  by (simp_all add: zoom_def setBarSpace_def zoomShift_def zoomShifted_def zoomAnchor_def Let_def)

lemma shifted_float_index:
  "coordinateToFloatIndex (zoomShift (coordinateToFloatIndex s x) x s') x = coordinateToFloatIndex s x"
proof -
  define k where "k = js_round ((real (length (dataList s)) + lastBarRightSideDiffBarCount s
      - (totalBarSpace s - x) / barSpace s) * 1000000)"
  define I' where "I' = real (length (dataList s')) + lastBarRightSideDiffBarCount s'
      - (totalBarSpace s' - x) / barSpace s'"
  define k' where "k' = js_round (I' * 1000000)"
  have F: "coordinateToFloatIndex s x = real_of_int k / 1000000"
    by (simp add: coordinateToFloatIndex_def k_def Let_def)
  have F': "coordinateToFloatIndex s' x = real_of_int k' / 1000000"
    by (simp add: coordinateToFloatIndex_def k'_def I'_def Let_def)
  have "coordinateToFloatIndex (zoomShift (coordinateToFloatIndex s x) x s') x
      = real_of_int (js_round ((I' + (real_of_int k / 1000000 - real_of_int k' / 1000000)) * 1000000)) / 1000000"
    unfolding zoomShift_def F F' by (simp add: coordinateToFloatIndex_def I'_def Let_def algebra_simps)
  also have "(I' + (real_of_int k / 1000000 - real_of_int k' / 1000000)) * 1000000
      = I' * 1000000 + real_of_int (k - k')"
    by (simp add: algebra_simps)
  also have "js_round (I' * 1000000 + real_of_int (k - k')) = k' + (k - k')"
    unfolding k'_def js_round_def by (simp add: algebra_simps)
  finally show ?thesis by (simp add: F)
qed

lemma zoomShifted_fields:
  "dataList (zoomShifted scale x s) = dataList s"
  "totalBarSpace (zoomShifted scale x s) = totalBarSpace s"
  "barSpace (zoomShifted scale x s) = zoomBarSpace s scale"
  "scrollLimitRole (zoomShifted scale x s) = scrollLimitRole s"
  "minVisibleBarCount_left (zoomShifted scale x s) = minVisibleBarCount_left s"
  "minVisibleBarCount_right (zoomShifted scale x s) = minVisibleBarCount_right s"
  "maxOffsetDistance_left (zoomShifted scale x s) = maxOffsetDistance_left s"
  "maxOffsetDistance_right (zoomShifted scale x s) = maxOffsetDistance_right s"
  by (simp_all add: zoomShifted_def zoomShift_def)

lemma zoomShifted_offset:
  "lastBarRightSideDiffBarCount (zoomShifted scale x s) =
     lastBarRightSideDiffBarCount s + (coordinateToFloatIndex s x
       - coordinateToFloatIndex (s\<lparr>barSpace := zoomBarSpace s scale\<rparr>) x)"
  by (simp add: zoomShifted_def zoomShift_def coordinateToFloatIndex_def)

text \<open>
  C7 (as stated, refuted): with the right offset at its upper scroll limit, zooming in by one
  step around the right edge \<open>x = 200\<close> is accepted (bar space 10 becomes 11), and
  \<open>_adjustVisibleRange\<close> then clamps the right offset to the new, smaller limit: the float index
  under \<open>x\<close> goes from 20 to 18.181818.
\<close>

theorem zoom_at_scroll_limit_moves_float_index:
  "zoomEnabled twoBarStoreAtLimit \<and>
   BarSpaceLimit_MIN \<le> zoomBarSpace twoBarStoreAtLimit 1 \<and>
   zoomBarSpace twoBarStoreAtLimit 1 \<le> BarSpaceLimit_MAX \<and>
   zoomBarSpace twoBarStoreAtLimit 1 \<noteq> barSpace twoBarStoreAtLimit \<and>
   coordinateToFloatIndex twoBarStoreAtLimit 200 = 20 \<and>
   coordinateToFloatIndex (zoom 1 (Some 200) twoBarStoreAtLimit) 200 = 18181818 / 1000000"
proof -
  have z: "zoomBarSpace twoBarStoreAtLimit 1 = 11"
    by (simp add: zoomBarSpace_def twoBarStoreAtLimit_fields SCALE_MULTIPLIER_def)
  have acc: "zoomEnabled twoBarStoreAtLimit" "BarSpaceLimit_MIN \<le> zoomBarSpace twoBarStoreAtLimit 1"
    "zoomBarSpace twoBarStoreAtLimit 1 \<le> BarSpaceLimit_MAX"
    "zoomBarSpace twoBarStoreAtLimit 1 \<noteq> barSpace twoBarStoreAtLimit"
    by (simp_all add: z twoBarStoreAtLimit_fields BarSpaceLimit_MIN_def BarSpaceLimit_MAX_def)
  have pre: "coordinateToFloatIndex twoBarStoreAtLimit 200 = 20"
    by (simp add: coordinateToFloatIndex_def twoBarStoreAtLimit_fields js_round_def)
  have mid: "coordinateToFloatIndex (twoBarStoreAtLimit\<lparr>barSpace := 11\<rparr>) 200 = 20"
    by (simp add: coordinateToFloatIndex_def twoBarStoreAtLimit_fields js_round_def)
  have d: "lastBarRightSideDiffBarCount (zoomShifted 1 200 twoBarStoreAtLimit) = 18"
    by (simp add: zoomShifted_offset z pre mid twoBarStoreAtLimit_fields)
  have lim: "limitedDiffBarCount (zoomShifted 1 200 twoBarStoreAtLimit) = 178 / 11"
    by (simp add: limitedDiffBarCount_def maxRightOffsetBarCount_def minRightOffsetBarCount_def
        leftMinVisibleBarCount_def rightMinVisibleBarCount_def zoomShifted_fields d z
        twoBarStoreAtLimit_fields Let_def)
  have post: "coordinateToFloatIndex (zoom 1 (Some 200) twoBarStoreAtLimit) 200 = 18181818 / 1000000"
    unfolding coordinateToFloatIndex_def Let_def zoom_accepted [OF acc] lim z
    by (simp add: twoBarStoreAtLimit_fields js_round_def)
  show ?thesis using acc pre post by simp
qed

text \<open>
  C7 (amended): when zooming is enabled, the new bar space is accepted and the right offset
  that the zoom callback computes lies within the scroll limits (so that
  \<open>_adjustVisibleRange\<close> does not clamp it), the float index under the anchor pixel \<open>x\<close> is
  the same after \<open>zoom(scale, {x})\<close> as before.
\<close>

theorem zoom_keeps_float_index:
  assumes "zoomEnabled s"
    and "BarSpaceLimit_MIN \<le> zoomBarSpace s scale" and "zoomBarSpace s scale \<le> BarSpaceLimit_MAX"
    and "zoomBarSpace s scale \<noteq> barSpace s"
    and "withinScrollLimits (zoomShifted scale x s)"
  shows "coordinateToFloatIndex (zoom scale (Some x) s) x = coordinateToFloatIndex s x"
proof -
  have "coordinateToFloatIndex (zoom scale (Some x) s) x = coordinateToFloatIndex (zoomShifted scale x s) x"
    using zoom_accepted [OF assms(1-4)] withinScrollLimits_limited [OF assms(5)]
    by (intro coordinateToFloatIndex_cong) (simp_all add: zoomShifted_def zoomShift_def)
  also have "\<dots> = coordinateToFloatIndex s x"
    unfolding zoomShifted_def by (rule shifted_float_index)
  finally show ?thesis .
qed

theorem zoom_keeps_float_index_witness:
  "zoomEnabled twoBarStore \<and>
   BarSpaceLimit_MIN \<le> zoomBarSpace twoBarStore 1 \<and> zoomBarSpace twoBarStore 1 \<le> BarSpaceLimit_MAX \<and>
   zoomBarSpace twoBarStore 1 \<noteq> barSpace twoBarStore \<and>
   withinScrollLimits (zoomShifted 1 0 twoBarStore) \<and>
   coordinateToFloatIndex (zoom 1 (Some 0) twoBarStore) 0 = - 10"
proof -
  have z: "zoomBarSpace twoBarStore 1 = 11"
    by (simp add: zoomBarSpace_def twoBarStore_fields SCALE_MULTIPLIER_def)
  have acc: "zoomEnabled twoBarStore" "BarSpaceLimit_MIN \<le> zoomBarSpace twoBarStore 1"
    "zoomBarSpace twoBarStore 1 \<le> BarSpaceLimit_MAX"
    "zoomBarSpace twoBarStore 1 \<noteq> barSpace twoBarStore"
    by (simp_all add: z twoBarStore_fields BarSpaceLimit_MIN_def BarSpaceLimit_MAX_def)
  have pre: "coordinateToFloatIndex twoBarStore 0 = - 10"
    by (simp add: coordinateToFloatIndex_def twoBarStore_fields js_round_def)
  have mid: "coordinateToFloatIndex (twoBarStore\<lparr>barSpace := 11\<rparr>) 0 = - 8181818 / 1000000"
    by (simp add: coordinateToFloatIndex_def twoBarStore_fields js_round_def)
  have d: "lastBarRightSideDiffBarCount (zoomShifted 1 0 twoBarStore) = 6181818 / 1000000"
    by (simp add: zoomShifted_offset z pre mid twoBarStore_fields)
  have lim: "withinScrollLimits (zoomShifted 1 0 twoBarStore)"
    by (simp add: withinScrollLimits_def maxRightOffsetBarCount_def minRightOffsetBarCount_def
        leftMinVisibleBarCount_def rightMinVisibleBarCount_def zoomShifted_fields d z twoBarStore_fields)
  show ?thesis
    using acc lim zoom_keeps_float_index [OF acc lim] pre by simp
qed

section \<open>The visible range stays within the data\<close>

lemma limitedDiffBarCount_lower: "- real (length (dataList s)) \<le> limitedDiffBarCount s"
proof -
  have "minRightOffsetBarCount s \<le> limitedDiffBarCount s"
    by (simp add: limitedDiffBarCount_def Let_def)
  moreover have "- real (length (dataList s)) \<le> minRightOffsetBarCount s"
    by (simp add: minRightOffsetBarCount_def rightMinVisibleBarCount_def)
  ultimately show ?thesis by linarith
qed

lemma calcVisibleRange_valid:
  assumes b: "0 < barSpace s" and t: "0 \<le> totalBarSpace s"
    and d: "- real (length (dataList s)) \<le> lastBarRightSideDiffBarCount s"
  shows "0 \<le> range_from (calcVisibleRange s)"
    and "range_from (calcVisibleRange s) \<le> range_to (calcVisibleRange s)"
    and "range_to (calcVisibleRange s) \<le> int (length (dataList s))"
proof -
  define n where "n = int (length (dataList s))"
  define to0 where "to0 = js_round (lastBarRightSideDiffBarCount s + real_of_int n + 1 / 2)"
  define to where "to = (if n < to0 then n else to0)"
  define from0 where "from0 = js_round (real_of_int to - totalBarSpace s / barSpace s) - 1"
  have rf: "range_from (calcVisibleRange s) = (if from0 < 0 then 0 else from0)"
    and rt: "range_to (calcVisibleRange s) = to"
    by (simp_all add: calcVisibleRange_def Let_def n_def to0_def to_def from0_def)
  have "0 \<le> lastBarRightSideDiffBarCount s + real_of_int n"
    using d by (simp add: n_def)
  then have "0 \<le> to0"
    unfolding to0_def js_round_def by (subst le_floor_iff) simp
  then have to_nonneg: "0 \<le> to"
    by (simp add: to_def n_def)
  have v: "0 \<le> totalBarSpace s / barSpace s"
    using b t by simp
  then have "real_of_int to - totalBarSpace s / barSpace s + 1 / 2 < real_of_int (to + 1)"
    by simp
  then have "js_round (real_of_int to - totalBarSpace s / barSpace s) < to + 1"
    unfolding js_round_def by (simp only: floor_less_iff)
  then have "from0 \<le> to"
    by (simp add: from0_def)
  show "0 \<le> range_from (calcVisibleRange s)"
    by (simp add: rf)
  show "range_from (calcVisibleRange s) \<le> range_to (calcVisibleRange s)"
    using \<open>from0 \<le> to\<close> to_nonneg by (simp add: rf rt)
  show "range_to (calcVisibleRange s) \<le> int (length (dataList s))"
    by (simp add: rt to_def n_def)
qed

lemma adjustVisibleRange_valid:
  assumes "0 < barSpace s" and "0 \<le> totalBarSpace s"
  shows "validRange (adjustVisibleRange s)"
  using calcVisibleRange_valid [of "s\<lparr>lastBarRightSideDiffBarCount := limitedDiffBarCount s\<rparr>"]
    assms limitedDiffBarCount_lower [of s]
  by (simp add: validRange_def)

lemma validRange_cong:
  "visibleRange s' = visibleRange s \<Longrightarrow> dataList s' = dataList s \<Longrightarrow> validRange s' = validRange s"
  by (simp add: validRange_def)

lemma storeInvariant_cong:
  assumes "visibleRange s' = visibleRange s" "dataList s' = dataList s"
    "barSpace s' = barSpace s" "totalBarSpace s' = totalBarSpace s"
  shows "storeInvariant s' = storeInvariant s"
  using assms by (simp add: storeInvariant_def validRange_def)

lemma storeInvariant_simps [simp]:
  "storeInvariant (emit e s) = storeInvariant s"
  "storeInvariant (setCrosshair cr b s) = storeInvariant s"
  "storeInvariant (addAllIndicatorCalcTasks ty s) = storeInvariant s"
  "storeInvariant (resolveOverlays ty c s) = storeInvariant s"
  "storeInvariant (classifyTimeTicks xs u s) = storeInvariant s"
  by (rule storeInvariant_cong; simp)+

lemma storeInvariant_resolved:
  "storeInvariant (if c then resolveOverlays ty n s else s) = storeInvariant s"
  by simp

lemma storeInvariant_adjust:
  assumes "BarSpaceLimit_MIN \<le> barSpace s" "barSpace s \<le> BarSpaceLimit_MAX" "0 \<le> totalBarSpace s"
  shows "storeInvariant (adjustVisibleRange s)"
proof -
  have "0 < barSpace s"
    using assms(1) by (simp add: BarSpaceLimit_MIN_def)
  then have "validRange (adjustVisibleRange s)"
    using assms(3) by (rule adjustVisibleRange_valid)
  then show ?thesis
    using assms by (simp add: storeInvariant_def)
qed

lemma storeInvariant_new: "storeInvariant (newStore fmt textWidth)"
  by (simp add: storeInvariant_def validRange_def newStore_def getDefaultVisibleRange_def
      BarSpaceLimit_MIN_def BarSpaceLimit_MAX_def DEFAULT_BAR_SPACE_def)

lemma storeInvariant_clear: "storeInvariant s \<Longrightarrow> storeInvariant (clear s)"
  by (simp add: storeInvariant_def validRange_def clear_def getDefaultVisibleRange_def)

lemma storeInvariant_setBarSpace:
  assumes inv: "storeInvariant s"
    and f: "\<And>s'. barSpace (f s') = barSpace s'" "\<And>s'. totalBarSpace (f s') = totalBarSpace s'"
  shows "storeInvariant (setBarSpace b None s)" and "storeInvariant (setBarSpace b (Some f) s)"
proof -
  have t: "0 \<le> totalBarSpace s"
    using inv by (simp add: storeInvariant_def)
  show "storeInvariant (setBarSpace b None s)"
  proof (cases "b < BarSpaceLimit_MIN \<or> BarSpaceLimit_MAX < b \<or> barSpace s = b")
    case True
    then show ?thesis using inv by (simp add: setBarSpace_def)
  next
    case False
    then show ?thesis
      using t by (simp add: setBarSpace_def Let_def storeInvariant_adjust)
  qed
  show "storeInvariant (setBarSpace b (Some f) s)"
  proof (cases "b < BarSpaceLimit_MIN \<or> BarSpaceLimit_MAX < b \<or> barSpace s = b")
    case True
    then show ?thesis using inv by (simp add: setBarSpace_def)
  next
    case False
    then show ?thesis
      using t by (simp add: setBarSpace_def Let_def storeInvariant_adjust f)
  qed
qed

lemma storeInvariant_parts:
  assumes "storeInvariant s"
  shows "BarSpaceLimit_MIN \<le> barSpace s" and "barSpace s \<le> BarSpaceLimit_MAX" and "0 \<le> totalBarSpace s"
  using assms by (simp_all add: storeInvariant_def)

lemma storeInvariant_setTotalBarSpace:
  assumes "storeInvariant s" and "0 \<le> t"
  shows "storeInvariant (setTotalBarSpace t s)"
proof (cases "totalBarSpace s = t")
  case True
  then show ?thesis using assms(1) by (simp add: setTotalBarSpace_def)
next
  case False
  then show ?thesis
    using storeInvariant_parts [OF assms(1)] assms(2)
    by (simp add: setTotalBarSpace_def Let_def storeInvariant_adjust)
qed

lemma storeInvariant_setOffsetRightDistance:
  assumes "storeInvariant s"
  shows "storeInvariant (setOffsetRightDistance d isUpdate s)"
proof (cases isUpdate)
  case True
  then show ?thesis
    using storeInvariant_parts [OF assms]
    by (simp add: setOffsetRightDistance_def Let_def storeInvariant_adjust)
next
  case False
  then show ?thesis
    using assms by (simp add: setOffsetRightDistance_def Let_def storeInvariant_def validRange_def)
qed

lemma storeInvariant_scroll:
  assumes "storeInvariant s"
  shows "storeInvariant (scroll d s)"
proof (cases "scrollEnabled s")
  case True
  then show ?thesis
    using storeInvariant_parts [OF assms]
    by (simp add: scroll_def Let_def storeInvariant_adjust)
next
  case False
  then show ?thesis using assms by (simp add: scroll_def)
qed

lemma storeInvariant_zoom:
  assumes "storeInvariant s"
  shows "storeInvariant (zoom scale x s)"
proof (cases "zoomEnabled s")
  case True
  have "storeInvariant (setBarSpace (zoomBarSpace s scale)
      (Some (zoomShift (coordinateToFloatIndex s (zoomAnchor s x)) (zoomAnchor s x))) s)"
    using assms by (rule storeInvariant_setBarSpace(2)) (simp_all add: zoomShift_def)
  with True show ?thesis
    by (simp add: zoom_def Let_def)
next
  case False
  then show ?thesis using assms by (simp add: zoom_def)
qed

lemma storeInvariant_setters:
  assumes "storeInvariant s"
  shows "storeInvariant (setLastBarRightSideDiffBarCount c s)"
    and "storeInvariant (setMaxOffsetLeftDistance c s)"
    and "storeInvariant (setMaxOffsetRightDistance c s)"
    and "storeInvariant (setLeftMinVisibleBarCount c s)"
    and "storeInvariant (setRightMinVisibleBarCount c s)"
    and "storeInvariant (setZoomEnabled e s)"
    and "storeInvariant (setScrollEnabled e s)"
    and "storeInvariant (setLoadMoreDataCallback s)"
    and "storeInvariant (startScroll s)"
  using assms
  by (simp_all add: storeInvariant_def validRange_def setLastBarRightSideDiffBarCount_def
      setMaxOffsetLeftDistance_def setMaxOffsetRightDistance_def setLeftMinVisibleBarCount_def
      setRightMinVisibleBarCount_def setZoomEnabled_def setScrollEnabled_def
      setLoadMoreDataCallback_def startScroll_def)

lemma addDataArray_fields:
  "barSpace (store (addDataArray data ty more' s)) = barSpace s"
  "totalBarSpace (store (addDataArray data ty more' s)) = totalBarSpace s"
  "success (addDataArray data ty more' s)"
  "dataLengthChange (addDataArray data ty more' s) = length data"
  by (cases ty; simp add: addDataArray_def Let_def setOffsetRightDistance_def clear_def)+

lemma addDataArray_not_adjusted:
  assumes "\<not> adjustFlag (addDataArray data ty more' s)"
  shows "dataList (store (addDataArray data ty more' s)) = dataList s"
    and "visibleRange (store (addDataArray data ty more' s)) = visibleRange s"
  using assms by (cases ty; simp add: addDataArray_def Let_def)+

lemma addDataSingle_fields:
  "barSpace (store (addDataSingle data s)) = barSpace s"
  "totalBarSpace (store (addDataSingle data s)) = totalBarSpace s"
  by (simp_all add: addDataSingle_def Let_def setLastBarRightSideDiffBarCount_def)

lemma addDataSingle_success:
  "success (addDataSingle data s) \<longleftrightarrow> lastDataTimestamp s \<le> timestamp data"
  by (simp add: addDataSingle_def Let_def)

lemma addDataSingle_rejected:
  "\<not> success (addDataSingle data s) \<Longrightarrow> store (addDataSingle data s) = s"
  by (simp add: addDataSingle_success) (simp add: addDataSingle_def)

lemma addDataSingle_adjusted:
  "success (addDataSingle data s) \<Longrightarrow> adjustFlag (addDataSingle data s)"
  by (simp add: addDataSingle_def Let_def split: if_splits)

lemma storeInvariant_addData:
  assumes inv: "storeInvariant s"
  shows "storeInvariant (addData data ty more' s)"
proof -
  note b = storeInvariant_parts [OF inv]
  show ?thesis
  proof (cases data)
    case (DataArray xs)
    show ?thesis
    proof (cases "adjustFlag (addDataArray xs ty more' s)")
      case True
      then show ?thesis
        using b by (simp add: addData_def DataArray Let_def addDataArray_fields storeInvariant_adjust)
    next
      case False
      note na = addDataArray_not_adjusted [OF False]
      have "storeInvariant (store (addDataArray xs ty more' s)) = storeInvariant s"
        by (rule storeInvariant_cong) (simp_all only: na addDataArray_fields)
      then show ?thesis
        using False inv
        by (simp add: addData_def DataArray Let_def addDataArray_fields storeInvariant_resolved)
    qed
  next
    case (DataSingle x)
    show ?thesis
    proof (cases "success (addDataSingle x s)")
      case True
      then show ?thesis
        using b addDataSingle_adjusted [OF True]
        by (simp add: addData_def DataSingle Let_def addDataSingle_fields storeInvariant_adjust)
    next
      case False
      then show ?thesis
        using inv by (simp add: addData_def DataSingle Let_def addDataSingle_rejected)
    qed
  qed
qed

lemma storeInvariant_mutate:
  assumes "storeInvariant s" and "nonNegativeSpace m"
  shows "storeInvariant (mutate m s)"
proof (cases m)
  case (SetBarSpace b)
  then show ?thesis
    using storeInvariant_setBarSpace(1) [OF assms(1), of id] by simp
next
  case (SetTotalBarSpace t)
  then show ?thesis
    using assms by (simp add: storeInvariant_setTotalBarSpace)
qed (simp_all add: assms(1) storeInvariant_addData storeInvariant_clear
      storeInvariant_setOffsetRightDistance storeInvariant_setters storeInvariant_scroll
      storeInvariant_zoom)

lemma reachable_storeInvariant: "reachable s \<Longrightarrow> storeInvariant s"
  by (induction rule: reachable.induct) (simp_all add: storeInvariant_new storeInvariant_mutate)

text \<open>
  C1 (as stated, refuted): setting the total space of a new store to \<open>-100\<close> leaves the range
  with \<open>from = 9\<close> and \<open>to = 0\<close>: \<open>from\<close> is \<open>round(to - totalBarSpace / barSpace) - 1\<close>, which
  exceeds \<open>to\<close> when the total space is below \<open>-1.5\<close> bars.
\<close>

theorem negative_total_space_breaks_range:
  "reachable emptyStore \<and>
   range_from (visibleRange (mutate (SetTotalBarSpace (- 100)) emptyStore)) = 9 \<and>
   range_to (visibleRange (mutate (SetTotalBarSpace (- 100)) emptyStore)) = 0 \<and>
   \<not> validRange (mutate (SetTotalBarSpace (- 100)) emptyStore)"
proof -
  define s1 where "s1 = emptyStore\<lparr>totalBarSpace := - 100\<rparr>"
  have r: "reachable emptyStore"
    unfolding emptyStore_def by (rule reachable.new)
  have lim: "limitedDiffBarCount s1 = 0"
    by (simp add: s1_def limitedDiffBarCount_def maxRightOffsetBarCount_def minRightOffsetBarCount_def
        leftMinVisibleBarCount_def rightMinVisibleBarCount_def emptyStore_fields Let_def)
  have vr: "visibleRange (setTotalBarSpace (- 100) emptyStore)
      = calcVisibleRange (s1\<lparr>lastBarRightSideDiffBarCount := 0\<rparr>)"
    by (simp add: setTotalBarSpace_def Let_def emptyStore_fields lim [unfolded s1_def] s1_def)
  have f: "range_from (calcVisibleRange (s1\<lparr>lastBarRightSideDiffBarCount := 0\<rparr>)) = 9"
    and t: "range_to (calcVisibleRange (s1\<lparr>lastBarRightSideDiffBarCount := 0\<rparr>)) = 0"
    by (simp_all add: calcVisibleRange_def s1_def emptyStore_fields js_round_def Let_def)
  show ?thesis
    using r by (simp add: validRange_def vr f t)
qed

text \<open>
  C1 (amended): in every store that a new store reaches by the mutations (initial, forward and
  backward loads, single-bar append or replace, clearing, scrolling, zooming, changes of the bar
  space, the total space, the right offset and the scroll limits), as long as the total space
  is never set to a negative number, the visible range satisfies
  \<open>0 \<le> from \<le> to \<le> dataCount\<close>.
\<close>

theorem reachable_validRange:
  assumes "reachable s"
  shows "0 \<le> range_from (visibleRange s) \<and>
         range_from (visibleRange s) \<le> range_to (visibleRange s) \<and>
         range_to (visibleRange s) \<le> int (length (dataList s))"
  using reachable_storeInvariant [OF assms] by (simp add: storeInvariant_def validRange_def)

theorem reachable_validRange_witness:
  "reachable (mutate (AddData (DataArray [bar1, bar2]) Init None) (mutate (SetTotalBarSpace 200) emptyStore)) \<and>
   0 \<le> range_from (visibleRange (mutate (AddData (DataArray [bar1, bar2]) Init None) (mutate (SetTotalBarSpace 200) emptyStore))) \<and>
   range_from (visibleRange (mutate (AddData (DataArray [bar1, bar2]) Init None) (mutate (SetTotalBarSpace 200) emptyStore)))
     \<le> range_to (visibleRange (mutate (AddData (DataArray [bar1, bar2]) Init None) (mutate (SetTotalBarSpace 200) emptyStore))) \<and>
   range_to (visibleRange (mutate (AddData (DataArray [bar1, bar2]) Init None) (mutate (SetTotalBarSpace 200) emptyStore)))
     \<le> int (length (dataList (mutate (AddData (DataArray [bar1, bar2]) Init None) (mutate (SetTotalBarSpace 200) emptyStore))))"
proof -
  have "reachable emptyStore"
    unfolding emptyStore_def by (rule reachable.new)
  then have "reachable (mutate (SetTotalBarSpace 200) emptyStore)"
    by (rule reachable.step) simp
  then have r: "reachable (mutate (AddData (DataArray [bar1, bar2]) Init None) (mutate (SetTotalBarSpace 200) emptyStore))"
    by (rule reachable.step) simp
  show ?thesis
    using r reachable_validRange [OF r] by blast
qed

section \<open>Adding a single bar\<close>

lemma lastDataTimestamp_last:
  "dataList s \<noteq> [] \<Longrightarrow> lastDataTimestamp s = timestamp (last (dataList s))"
  by (simp add: lastDataTimestamp_def dataListAt_def dataAt_def last_conv_nth nat_diff_distrib')

lemma limits_fields_cong:
  assumes "totalBarSpace s' = totalBarSpace s" "barSpace s' = barSpace s"
    "scrollLimitRole s' = scrollLimitRole s"
    "minVisibleBarCount_left s' = minVisibleBarCount_left s"
    "minVisibleBarCount_right s' = minVisibleBarCount_right s"
    "maxOffsetDistance_left s' = maxOffsetDistance_left s"
    "maxOffsetDistance_right s' = maxOffsetDistance_right s"
  shows "leftMinVisibleBarCount s' = leftMinVisibleBarCount s"
    and "rightMinVisibleBarCount s' = rightMinVisibleBarCount s"
  using assms by (simp_all add: leftMinVisibleBarCount_def rightMinVisibleBarCount_def)

lemma withinScrollLimits_same:
  assumes "withinScrollLimits s"
    and "length (dataList s') = length (dataList s)"
    and "lastBarRightSideDiffBarCount s' = lastBarRightSideDiffBarCount s"
    and "totalBarSpace s' = totalBarSpace s" "barSpace s' = barSpace s"
    and "leftMinVisibleBarCount s' = leftMinVisibleBarCount s"
    and "rightMinVisibleBarCount s' = rightMinVisibleBarCount s"
  shows "withinScrollLimits s'"
  using assms by (simp add: withinScrollLimits_def maxRightOffsetBarCount_def minRightOffsetBarCount_def)

lemma withinScrollLimits_appended:
  assumes "withinScrollLimits s" and "lastBarRightSideDiffBarCount s < 0"
    and "length (dataList s') = Suc (length (dataList s))"
    and "lastBarRightSideDiffBarCount s' = lastBarRightSideDiffBarCount s - 1"
    and "totalBarSpace s' = totalBarSpace s" "barSpace s' = barSpace s"
    and "leftMinVisibleBarCount s' = leftMinVisibleBarCount s"
    and "rightMinVisibleBarCount s' = rightMinVisibleBarCount s"
  shows "withinScrollLimits s'"
  using assms
  by (simp add: withinScrollLimits_def maxRightOffsetBarCount_def minRightOffsetBarCount_def min_def
      split: if_splits)

lemma addDataSingle_append:
  assumes "lastDataTimestamp s < timestamp bar"
  shows "success (addDataSingle bar s)" "adjustFlag (addDataSingle bar s)"
    "dataLengthChange (addDataSingle bar s) = 1"
    "dataList (store (addDataSingle bar s)) = dataList s @ [bar]"
    "lastBarRightSideDiffBarCount (store (addDataSingle bar s)) =
       (if lastBarRightSideDiffBarCount s < 0 then lastBarRightSideDiffBarCount s - 1
        else lastBarRightSideDiffBarCount s)"
    "scrollLimitRole (store (addDataSingle bar s)) = scrollLimitRole s"
    "minVisibleBarCount_left (store (addDataSingle bar s)) = minVisibleBarCount_left s"
    "minVisibleBarCount_right (store (addDataSingle bar s)) = minVisibleBarCount_right s"
    "maxOffsetDistance_left (store (addDataSingle bar s)) = maxOffsetDistance_left s"
    "maxOffsetDistance_right (store (addDataSingle bar s)) = maxOffsetDistance_right s"
  using assms by (simp_all add: addDataSingle_def Let_def setLastBarRightSideDiffBarCount_def)

lemma addDataSingle_replace:
  assumes "timestamp bar = lastDataTimestamp s" and "dataList s \<noteq> []"
  shows "success (addDataSingle bar s)" "adjustFlag (addDataSingle bar s)"
    "dataLengthChange (addDataSingle bar s) = 0"
    "dataList (store (addDataSingle bar s)) = (dataList s)[length (dataList s) - 1 := bar]"
    "lastBarRightSideDiffBarCount (store (addDataSingle bar s)) = lastBarRightSideDiffBarCount s"
    "totalBarSpace (store (addDataSingle bar s)) = totalBarSpace s"
    "barSpace (store (addDataSingle bar s)) = barSpace s"
    "scrollLimitRole (store (addDataSingle bar s)) = scrollLimitRole s"
    "minVisibleBarCount_left (store (addDataSingle bar s)) = minVisibleBarCount_left s"
    "minVisibleBarCount_right (store (addDataSingle bar s)) = minVisibleBarCount_right s"
    "maxOffsetDistance_left (store (addDataSingle bar s)) = maxOffsetDistance_left s"
    "maxOffsetDistance_right (store (addDataSingle bar s)) = maxOffsetDistance_right s"
  using assms by (simp_all add: addDataSingle_def Let_def)

lemma addData_single_accepted:
  assumes "success (addDataSingle bar s)" "adjustFlag (addDataSingle bar s)"
  shows "dataList (addData (DataSingle bar) ty more' s) = dataList (store (addDataSingle bar s))"
    and "lastBarRightSideDiffBarCount (addData (DataSingle bar) ty more' s) =
           limitedDiffBarCount (if 0 < dataLengthChange (addDataSingle bar s)
             then resolveOverlays ty (dataLengthChange (addDataSingle bar s)) (store (addDataSingle bar s))
             else store (addDataSingle bar s))"
  using assms by (simp_all add: addData_def Let_def)

lemma addData_single_rejected:
  assumes "timestamp bar < lastDataTimestamp s"
  shows "addData (DataSingle bar) ty more' s = s"
  using assms by (simp add: addData_def Let_def addDataSingle_success addDataSingle_rejected)

lemma limitedDiffBarCount_clamp:
  "limitedDiffBarCount s = clampToScrollLimits s (lastBarRightSideDiffBarCount s)"
  by (simp add: limitedDiffBarCount_def clampToScrollLimits_def Let_def)

lemma clampToScrollLimits_cong:
  assumes "maxRightOffsetBarCount s' = maxRightOffsetBarCount s"
    and "minRightOffsetBarCount s' = minRightOffsetBarCount s"
  shows "clampToScrollLimits s' d = clampToScrollLimits s d"
  using assms by (simp add: clampToScrollLimits_def Let_def)

lemma addDataSingle_limit_fields:
  "scrollLimitRole (store (addDataSingle bar s)) = scrollLimitRole s"
  "minVisibleBarCount_left (store (addDataSingle bar s)) = minVisibleBarCount_left s"
  "minVisibleBarCount_right (store (addDataSingle bar s)) = minVisibleBarCount_right s"
  "maxOffsetDistance_left (store (addDataSingle bar s)) = maxOffsetDistance_left s"
  "maxOffsetDistance_right (store (addDataSingle bar s)) = maxOffsetDistance_right s"
  by (simp_all add: addDataSingle_def Let_def setLastBarRightSideDiffBarCount_def)

lemma addData_single_fields:
  "totalBarSpace (addData (DataSingle bar) ty more' s) = totalBarSpace s"
  "barSpace (addData (DataSingle bar) ty more' s) = barSpace s"
  "scrollLimitRole (addData (DataSingle bar) ty more' s) = scrollLimitRole s"
  "minVisibleBarCount_left (addData (DataSingle bar) ty more' s) = minVisibleBarCount_left s"
  "minVisibleBarCount_right (addData (DataSingle bar) ty more' s) = minVisibleBarCount_right s"
  "maxOffsetDistance_left (addData (DataSingle bar) ty more' s) = maxOffsetDistance_left s"
  "maxOffsetDistance_right (addData (DataSingle bar) ty more' s) = maxOffsetDistance_right s"
  by (simp_all add: addData_def Let_def addDataSingle_fields addDataSingle_limit_fields)

lemma addData_single_offset:
  assumes "success (addDataSingle bar s)" and "adjustFlag (addDataSingle bar s)"
  shows "lastBarRightSideDiffBarCount (addData (DataSingle bar) ty more' s) =
           clampToScrollLimits (addData (DataSingle bar) ty more' s)
             (lastBarRightSideDiffBarCount (store (addDataSingle bar s)))"
proof -
  define s1 where "s1 = (if 0 < dataLengthChange (addDataSingle bar s)
      then resolveOverlays ty (dataLengthChange (addDataSingle bar s)) (store (addDataSingle bar s))
      else store (addDataSingle bar s))"
  define s' where "s' = addData (DataSingle bar) ty more' s"
  have f1: "dataList s1 = dataList (store (addDataSingle bar s))"
    "lastBarRightSideDiffBarCount s1 = lastBarRightSideDiffBarCount (store (addDataSingle bar s))"
    "totalBarSpace s1 = totalBarSpace s" "barSpace s1 = barSpace s"
    "scrollLimitRole s1 = scrollLimitRole s"
    "minVisibleBarCount_left s1 = minVisibleBarCount_left s"
    "minVisibleBarCount_right s1 = minVisibleBarCount_right s"
    "maxOffsetDistance_left s1 = maxOffsetDistance_left s"
    "maxOffsetDistance_right s1 = maxOffsetDistance_right s"
    by (simp_all add: s1_def addDataSingle_fields addDataSingle_limit_fields)
  have f': "dataList s' = dataList (store (addDataSingle bar s))"
    unfolding s'_def by (rule addData_single_accepted(1) [OF assms])
  have lims: "leftMinVisibleBarCount s' = leftMinVisibleBarCount s1"
    "rightMinVisibleBarCount s' = rightMinVisibleBarCount s1"
    by (rule limits_fields_cong; simp add: s'_def addData_single_fields f1)+
  have m: "maxRightOffsetBarCount s' = maxRightOffsetBarCount s1"
    "minRightOffsetBarCount s' = minRightOffsetBarCount s1"
    by (simp_all add: maxRightOffsetBarCount_def minRightOffsetBarCount_def lims f' f1)
       (simp_all add: s'_def addData_single_fields)
  have "lastBarRightSideDiffBarCount s' = limitedDiffBarCount s1"
    unfolding s'_def s1_def by (rule addData_single_accepted(2) [OF assms])
  also have "\<dots> = clampToScrollLimits s1 (lastBarRightSideDiffBarCount (store (addDataSingle bar s)))"
    by (simp add: limitedDiffBarCount_clamp f1)
  also have "\<dots> = clampToScrollLimits s' (lastBarRightSideDiffBarCount (store (addDataSingle bar s)))"
    by (rule clampToScrollLimits_cong [symmetric]) (rule m)+
  finally show ?thesis
    unfolding s'_def .
qed


text \<open>
  C3 (amended): a single bar given to \<open>addData\<close> when the data is not empty.  A timestamp
  above the last bar's appends the bar (the length grows by one); a negative right offset is
  lowered by one and the range adjustment then clamps it to the scroll limits, so that it ends
  exactly one lower whenever the store's offset was within its scroll limits.  A timestamp
  equal to the last bar's replaces the last bar in place (same length); the offset is not
  shifted but clamped likewise, so that it ends unchanged whenever it was within its limits.
  A lower timestamp returns the store as it was.
\<close>

theorem single_bar_upsert:
  assumes "dataList s \<noteq> []"
  shows
    "(timestamp (last (dataList s)) < timestamp bar \<longrightarrow>
        dataList (addData (DataSingle bar) ty more' s) = dataList s @ [bar] \<and>
        length (dataList (addData (DataSingle bar) ty more' s)) = length (dataList s) + 1 \<and>
        lastBarRightSideDiffBarCount (addData (DataSingle bar) ty more' s) =
          clampToScrollLimits (addData (DataSingle bar) ty more' s)
            (if lastBarRightSideDiffBarCount s < 0 then lastBarRightSideDiffBarCount s - 1
             else lastBarRightSideDiffBarCount s) \<and>
        (withinScrollLimits s \<and> lastBarRightSideDiffBarCount s < 0 \<longrightarrow>
           lastBarRightSideDiffBarCount (addData (DataSingle bar) ty more' s) =
             lastBarRightSideDiffBarCount s - 1)) \<and>
     (timestamp bar = timestamp (last (dataList s)) \<longrightarrow>
        dataList (addData (DataSingle bar) ty more' s) = (dataList s)[length (dataList s) - 1 := bar] \<and>
        length (dataList (addData (DataSingle bar) ty more' s)) = length (dataList s) \<and>
        lastBarRightSideDiffBarCount (addData (DataSingle bar) ty more' s) =
          clampToScrollLimits (addData (DataSingle bar) ty more' s) (lastBarRightSideDiffBarCount s) \<and>
        (withinScrollLimits s \<longrightarrow>
           lastBarRightSideDiffBarCount (addData (DataSingle bar) ty more' s) =
             lastBarRightSideDiffBarCount s)) \<and>
     (timestamp bar < timestamp (last (dataList s)) \<longrightarrow>
        addData (DataSingle bar) ty more' s = s)"
proof -
  note last = lastDataTimestamp_last [OF assms]
  have append: "dataList (addData (DataSingle bar) ty more' s) = dataList s @ [bar] \<and>
        length (dataList (addData (DataSingle bar) ty more' s)) = length (dataList s) + 1 \<and>
        lastBarRightSideDiffBarCount (addData (DataSingle bar) ty more' s) =
          clampToScrollLimits (addData (DataSingle bar) ty more' s)
            (if lastBarRightSideDiffBarCount s < 0 then lastBarRightSideDiffBarCount s - 1
             else lastBarRightSideDiffBarCount s) \<and>
        (withinScrollLimits s \<and> lastBarRightSideDiffBarCount s < 0 \<longrightarrow>
           lastBarRightSideDiffBarCount (addData (DataSingle bar) ty more' s) =
             lastBarRightSideDiffBarCount s - 1)"
    if lt: "timestamp (last (dataList s)) < timestamp bar"
  proof -
    have lt': "lastDataTimestamp s < timestamp bar"
      using lt by (simp add: last)
    note a = addDataSingle_append [OF lt']
    note acc = addData_single_accepted [OF a(1,2), of ty more']
    note off = addData_single_offset [OF a(1,2), of ty more']
    define s1 where "s1 = resolveOverlays ty 1 (store (addDataSingle bar s))"
    have d: "lastBarRightSideDiffBarCount (addData (DataSingle bar) ty more' s) = limitedDiffBarCount s1"
      using acc(2) by (simp add: a(3) s1_def)
    have "limitedDiffBarCount s1 = lastBarRightSideDiffBarCount s - 1"
      if w: "withinScrollLimits s" and neg: "lastBarRightSideDiffBarCount s < 0"
    proof -
      have f: "length (dataList s1) = Suc (length (dataList s))"
        "lastBarRightSideDiffBarCount s1 = lastBarRightSideDiffBarCount s - 1"
        "totalBarSpace s1 = totalBarSpace s" "barSpace s1 = barSpace s"
        using neg by (simp_all add: s1_def a addDataSingle_fields)
      have lims: "leftMinVisibleBarCount s1 = leftMinVisibleBarCount s"
        "rightMinVisibleBarCount s1 = rightMinVisibleBarCount s"
        by (rule limits_fields_cong; simp add: s1_def a addDataSingle_fields)+
      have "withinScrollLimits s1"
        by (rule withinScrollLimits_appended [OF w neg f lims])
      then show ?thesis
        by (simp add: withinScrollLimits_limited f)
    qed
    then show ?thesis
      using acc(1) a(4) d off by (simp add: a(5))
  qed
  have replace: "dataList (addData (DataSingle bar) ty more' s) = (dataList s)[length (dataList s) - 1 := bar] \<and>
        length (dataList (addData (DataSingle bar) ty more' s)) = length (dataList s) \<and>
        lastBarRightSideDiffBarCount (addData (DataSingle bar) ty more' s) =
          clampToScrollLimits (addData (DataSingle bar) ty more' s) (lastBarRightSideDiffBarCount s) \<and>
        (withinScrollLimits s \<longrightarrow>
           lastBarRightSideDiffBarCount (addData (DataSingle bar) ty more' s) =
             lastBarRightSideDiffBarCount s)"
    if eq: "timestamp bar = timestamp (last (dataList s))"
  proof -
    have eq': "timestamp bar = lastDataTimestamp s"
      using eq by (simp add: last)
    note a = addDataSingle_replace [OF eq' assms]
    note acc = addData_single_accepted [OF a(1,2), of ty more']
    note off = addData_single_offset [OF a(1,2), of ty more']
    define s1 where "s1 = store (addDataSingle bar s)"
    have d: "lastBarRightSideDiffBarCount (addData (DataSingle bar) ty more' s) = limitedDiffBarCount s1"
      using acc(2) by (simp add: a(3) s1_def)
    have "limitedDiffBarCount s1 = lastBarRightSideDiffBarCount s" if w: "withinScrollLimits s"
    proof -
      have f: "length (dataList s1) = length (dataList s)"
        "lastBarRightSideDiffBarCount s1 = lastBarRightSideDiffBarCount s"
        "totalBarSpace s1 = totalBarSpace s" "barSpace s1 = barSpace s"
        by (simp_all add: s1_def a)
      have lims: "leftMinVisibleBarCount s1 = leftMinVisibleBarCount s"
        "rightMinVisibleBarCount s1 = rightMinVisibleBarCount s"
        by (rule limits_fields_cong; simp add: s1_def a)+
      have "withinScrollLimits s1"
        by (rule withinScrollLimits_same [OF w f lims])
      then show ?thesis
        by (simp add: withinScrollLimits_limited f)
    qed
    then show ?thesis
      using acc(1) a(4) d off by (simp add: a(5))
  qed
  have reject: "addData (DataSingle bar) ty more' s = s"
    if "timestamp bar < timestamp (last (dataList s))"
    using that by (simp add: addData_single_rejected last)
  show ?thesis
    using append replace reject by blast
qed

theorem single_bar_upsert_witness:
  "dataList threeBarStore \<noteq> [] \<and> withinScrollLimits threeBarStore \<and>
   lastBarRightSideDiffBarCount threeBarStore < 0 \<and>
   timestamp (last (dataList threeBarStore)) < timestamp bar4 \<and>
   dataList (addData (DataSingle bar4) Backward None threeBarStore) = [bar1, bar2, bar3, bar4] \<and>
   lastBarRightSideDiffBarCount (addData (DataSingle bar4) Backward None threeBarStore) = - 2 \<and>
   timestamp (bar3\<lparr>close := 20\<rparr>) = timestamp (last (dataList threeBarStore)) \<and>
   dataList (addData (DataSingle (bar3\<lparr>close := 20\<rparr>)) Backward None threeBarStore)
     = [bar1, bar2, bar3\<lparr>close := 20\<rparr>] \<and>
   lastBarRightSideDiffBarCount (addData (DataSingle (bar3\<lparr>close := 20\<rparr>)) Backward None threeBarStore) = - 1 \<and>
   timestamp bar1 < timestamp (last (dataList threeBarStore)) \<and>
   addData (DataSingle bar1) Backward None threeBarStore = threeBarStore"
proof -
  have ne: "dataList threeBarStore \<noteq> []"
    by (simp add: threeBarStore_fields)
  have ts: "timestamp bar3 = 3" "timestamp bar4 = 4" "timestamp bar1 = 1"
    by (simp_all add: bar1_def bar3_def bar4_def)
  show ?thesis
    using ne threeBarStore_withinScrollLimits
      single_bar_upsert [OF ne, of bar4 Backward None]
      single_bar_upsert [OF ne, of "bar3\<lparr>close := 20\<rparr>" Backward None]
      single_bar_upsert [OF ne, of bar1 Backward None]
    by (simp add: ts threeBarStore_fields)
qed

section \<open>The spacing of the tick labels\<close>

lemma lastIndex_simps [simp]:
  "lastIndex [] = None" "lastIndex (ticks @ [t]) = Some (dataIndex t)"
  by (simp_all add: lastIndex_def)















section \<open>Indicator tasks of one key\<close>

lemma runTasks_simps [simp]:
  "runTasks [] s = s"
  "runTasks (e # es) s = runTasks es (taskStep e s)"
  "runTasks (es @ es') s = runTasks es' (runTasks es s)"
  by (simp_all add: runTasks_def)

text \<open>
  C9 (as stated, refuted): a task is submitted and run, so that its computation is in flight; a
  second task for the same key is submitted before the first computation resolves, and runs;
  both computations resolve.  Two \<open>Ready\<close> reports are delivered for the key.
\<close>

theorem two_tasks_two_completions:
  "completions maKey
     (runTasks [Submit maKey Init, Run maKey, Submit maKey Forward, Run maKey,
                Settle maKey (Resolved True), Settle maKey (Resolved True)] idle)
     = [(maKey, Ready, Init), (maKey, Ready, Forward)]"
  by (simp add: completions_def idle_def addTask_def settled_def maKey_def generateTaskId_def)

lemma map_of_inFlight:
  "map_of xs k = (case filter (\<lambda>c. fst c = k) xs of [] \<Rightarrow> None | c # _ \<Rightarrow> Some (snd c))"
  by (induction xs) auto

lemma filter_remove1_first:
  assumes "map_of xs k = Some ty"
  shows "filter (\<lambda>c. fst c = k) (remove1 (k, ty) xs) = tl (filter (\<lambda>c. fst c = k) xs)"
  using assms by (induction xs) (auto split: if_splits)

lemma filter_remove1_other:
  assumes "k' \<noteq> k"
  shows "filter (\<lambda>c. fst c = k') (remove1 (k, ty) xs) = filter (\<lambda>c. fst c = k') xs"
  using assms by (induction xs) auto

lemma taskStep_other:
  assumes "eventKey e \<noteq> k"
  shows "map_of (pending (taskStep e s)) k = map_of (pending s) k"
    and "inFlight k (taskStep e s) = inFlight k s"
    and "completions k (taskStep e s) = completions k s"
proof -
  show "map_of (pending (taskStep e s)) k = map_of (pending s) k"
    using assms
    by (cases e) (auto simp: addTask_def update_conv' delete_conv' split: option.splits)
  show "inFlight k (taskStep e s) = inFlight k s"
    using assms
    by (cases e) (auto simp: inFlight_def filter_remove1_other split: option.splits)
  show "completions k (taskStep e s) = completions k s"
    using assms
    by (cases e) (auto simp: completions_def settled_def split: option.splits calcOutcome.splits)
qed

lemma runTasks_other:
  assumes "\<forall>e \<in> set es. eventKey e \<noteq> k"
  shows "map_of (pending (runTasks es s)) k = map_of (pending s) k"
    and "inFlight k (runTasks es s) = inFlight k s"
    and "completions k (runTasks es s) = completions k s"
  using assms by (induction es arbitrary: s) (simp_all add: taskStep_other)


lemma taskStep_Submit:
  "map_of (pending (taskStep (Submit k ty) s)) k = Some ty"
  "inFlight k (taskStep (Submit k ty) s) = inFlight k s"
  "completions k (taskStep (Submit k ty) s) = completions k s"
  by (simp_all add: addTask_def update_conv' inFlight_def completions_def)

lemma taskStep_Run:
  assumes "map_of (pending s) k = Some ty"
  shows "map_of (pending (taskStep (Run k) s)) k = None"
    and "inFlight k (taskStep (Run k) s) = inFlight k s @ [(k, ty)]"
    and "completions k (taskStep (Run k) s) = completions k s"
  using assms by (simp_all add: delete_conv' inFlight_def completions_def)

lemma settled_completions:
  "filter (\<lambda>n. fst n = k \<and> fst (snd n) \<noteq> Loading) (settled k ty outcome) = settled k ty outcome"
  by (simp add: settled_def split: calcOutcome.splits)

lemma taskStep_Settle:
  assumes "inFlight k s = (k, ty) # rest"
  shows "map_of (pending (taskStep (Settle k outcome) s)) k = map_of (pending s) k"
    and "inFlight k (taskStep (Settle k outcome) s) = rest"
    and "completions k (taskStep (Settle k outcome) s) = completions k s @ settled k ty outcome"
proof -
  have m: "map_of (calculating s) k = Some ty"
    using assms by (simp add: map_of_inFlight [of "calculating s" k] inFlight_def)
  show "map_of (pending (taskStep (Settle k outcome) s)) k = map_of (pending s) k"
    by (simp add: m)
  show "inFlight k (taskStep (Settle k outcome) s) = rest"
    using assms filter_remove1_first [OF m] by (simp add: m inFlight_def)
  show "completions k (taskStep (Settle k outcome) s) = completions k s @ settled k ty outcome"
    by (simp add: m completions_def settled_completions)
qed

lemma settled_length:
  "length (settled k ty outcome) \<le> 1"
  "outcome \<noteq> Resolved False \<Longrightarrow> length (settled k ty outcome) = 1"
  by (cases outcome; simp add: settled_def)+

lemma filter_Cons_split:
  assumes "filter P xs = y # ys"
  obtains us vs where "xs = us @ y # vs" and "\<forall>u\<in>set us. \<not> P u" and "filter P vs = ys"
  using assms by (auto simp: filter_eq_Cons_iff)

text \<open>
  C9 (amended): if a key has no task pending or in flight, two tasks are submitted for it, the
  second while the first is still pending, and then the pending task is run and its
  computation settles, with the events of other keys interleaved in any way, then the only
  completion report added for the key is that of the second task: at most one, and exactly one
  (\<open>Ready\<close> or \<open>Error\<close>) unless the computation resolves with a false result.  No task of the
  key is left pending or in flight.
\<close>

theorem superseded_task_completes_once:
  assumes "map_of (pending s) k = None" and "inFlight k s = []"
    and "filter (\<lambda>e. eventKey e = k) events = [Submit k ty1, Submit k ty2, Run k, Settle k outcome]"
  shows "completions k (runTasks events s) = completions k s @ settled k ty2 outcome \<and>
         length (settled k ty2 outcome) \<le> 1 \<and>
         (outcome \<noteq> Resolved False \<longrightarrow> length (settled k ty2 outcome) = 1) \<and>
         map_of (pending (runTasks events s)) k = None \<and>
         inFlight k (runTasks events s) = []"
proof -
  let ?P = "\<lambda>e. eventKey e = k"
  obtain a0 r1 where e0: "events = a0 @ Submit k ty1 # r1" and o0: "\<forall>e\<in>set a0. eventKey e \<noteq> k"
    and f1: "filter ?P r1 = [Submit k ty2, Run k, Settle k outcome]"
    using assms(3) by (rule filter_Cons_split)
  obtain a1 r2 where e1: "r1 = a1 @ Submit k ty2 # r2" and o1: "\<forall>e\<in>set a1. eventKey e \<noteq> k"
    and f2: "filter ?P r2 = [Run k, Settle k outcome]"
    using f1 by (rule filter_Cons_split)
  obtain a2 r3 where e2: "r2 = a2 @ Run k # r3" and o2: "\<forall>e\<in>set a2. eventKey e \<noteq> k"
    and f3: "filter ?P r3 = [Settle k outcome]"
    using f2 by (rule filter_Cons_split)
  obtain a3 a4 where e3: "r3 = a3 @ Settle k outcome # a4" and o3: "\<forall>e\<in>set a3. eventKey e \<noteq> k"
    and f4: "filter ?P a4 = []"
    using f3 by (rule filter_Cons_split)
  have o4: "\<forall>e\<in>set a4. eventKey e \<noteq> k"
    using f4 by (simp add: filter_empty_conv)
  define s0 where "s0 = runTasks a0 s"
  define s1 where "s1 = runTasks a1 (taskStep (Submit k ty1) s0)"
  define s2 where "s2 = runTasks a2 (taskStep (Submit k ty2) s1)"
  define s3 where "s3 = runTasks a3 (taskStep (Run k) s2)"
  define s4 where "s4 = runTasks a4 (taskStep (Settle k outcome) s3)"
  have final: "runTasks events s = s4"
    by (simp add: e0 e1 e2 e3 s0_def s1_def s2_def s3_def s4_def)
  have p0: "inFlight k s0 = []" "completions k s0 = completions k s"
    unfolding s0_def using runTasks_other [OF o0] assms(2) by simp_all
  have p1: "inFlight k s1 = []" "completions k s1 = completions k s"
    unfolding s1_def using runTasks_other [OF o1] taskStep_Submit p0 by simp_all
  have p2: "map_of (pending s2) k = Some ty2" "inFlight k s2 = []" "completions k s2 = completions k s"
    unfolding s2_def using runTasks_other [OF o2] taskStep_Submit p1 by simp_all
  have p3: "map_of (pending s3) k = None" "inFlight k s3 = [(k, ty2)]" "completions k s3 = completions k s"
    unfolding s3_def using runTasks_other [OF o3] taskStep_Run [OF p2(1)] p2 by simp_all
  have p4: "map_of (pending s4) k = None" "inFlight k s4 = []"
    "completions k s4 = completions k s @ settled k ty2 outcome"
    unfolding s4_def using runTasks_other [OF o4] taskStep_Settle [OF p3(2)] p3 by simp_all
  show ?thesis
    using p4 settled_length [where k = k and ty = ty2 and outcome = outcome] by (simp add: final)
qed

theorem superseded_task_completes_once_witness:
  "map_of (pending idle) maKey = None \<and> inFlight maKey idle = [] \<and>
   filter (\<lambda>e. eventKey e = maKey)
     [Submit maKey Init, Submit volKey Init, Submit maKey Forward, Run volKey, Run maKey,
      Settle volKey Rejected, Settle maKey (Resolved True)]
     = [Submit maKey Init, Submit maKey Forward, Run maKey, Settle maKey (Resolved True)] \<and>
   completions maKey
     (runTasks [Submit maKey Init, Submit volKey Init, Submit maKey Forward, Run volKey, Run maKey,
                Settle volKey Rejected, Settle maKey (Resolved True)] idle)
     = [(maKey, Ready, Forward)]"
proof -
  have a: "map_of (pending idle) maKey = None" "inFlight maKey idle = []" "completions maKey idle = []"
    by (simp_all add: idle_def inFlight_def completions_def)
  have f: "filter (\<lambda>e. eventKey e = maKey)
     [Submit maKey Init, Submit volKey Init, Submit maKey Forward, Run volKey, Run maKey,
      Settle volKey Rejected, Settle maKey (Resolved True)]
     = [Submit maKey Init, Submit maKey Forward, Run maKey, Settle maKey (Resolved True)]"
    by (simp add: maKey_def volKey_def generateTaskId_def)
  show ?thesis
    using a f superseded_task_completes_once [OF a(1,2) f] by (simp add: settled_def)
qed

section \<open>The two-bar scenario\<close>

lemma setTotalBarSpace_fields:
  "dataList (setTotalBarSpace t s) = dataList s"
  "barSpace (setTotalBarSpace t s) = barSpace s"
  "totalBarSpace (setTotalBarSpace t s) = t"
  "offsetRightDistance (setTotalBarSpace t s) = offsetRightDistance s"
  "scrollLimitRole (setTotalBarSpace t s) = scrollLimitRole s"
  "minVisibleBarCount_left (setTotalBarSpace t s) = minVisibleBarCount_left s"
  "minVisibleBarCount_right (setTotalBarSpace t s) = minVisibleBarCount_right s"
  by (simp_all add: setTotalBarSpace_def Let_def)

lemma limitedDiffBarCount_cong:
  assumes "length (dataList s') = length (dataList s)"
    and "lastBarRightSideDiffBarCount s' = lastBarRightSideDiffBarCount s"
    and "totalBarSpace s' = totalBarSpace s" "barSpace s' = barSpace s"
    and "leftMinVisibleBarCount s' = leftMinVisibleBarCount s"
    and "rightMinVisibleBarCount s' = rightMinVisibleBarCount s"
  shows "limitedDiffBarCount s' = limitedDiffBarCount s"
proof -
  have "maxRightOffsetBarCount s' = maxRightOffsetBarCount s"
    and "minRightOffsetBarCount s' = minRightOffsetBarCount s"
    using assms by (simp_all add: maxRightOffsetBarCount_def minRightOffsetBarCount_def)
  then show ?thesis
    using assms(2) by (simp add: limitedDiffBarCount_def Let_def)
qed

lemma addDataArray_Init_store:
  "dataList (store (addDataArray xs Init more' s)) = xs"
  "barSpace (store (addDataArray xs Init more' s)) = barSpace s"
  "totalBarSpace (store (addDataArray xs Init more' s)) = totalBarSpace s"
  "lastBarRightSideDiffBarCount (store (addDataArray xs Init more' s)) =
     (if scrollLimitRole s = Distance then min (maxOffsetDistance_right s) (offsetRightDistance s)
      else offsetRightDistance s) / barSpace s"
  "scrollLimitRole (store (addDataArray xs Init more' s)) = scrollLimitRole s"
  "minVisibleBarCount_left (store (addDataArray xs Init more' s)) = minVisibleBarCount_left s"
  "minVisibleBarCount_right (store (addDataArray xs Init more' s)) = minVisibleBarCount_right s"
  "maxOffsetDistance_left (store (addDataArray xs Init more' s)) = maxOffsetDistance_left s"
  "maxOffsetDistance_right (store (addDataArray xs Init more' s)) = maxOffsetDistance_right s"
  "adjustFlag (addDataArray xs Init more' s)"
  by (simp_all add: addDataArray_def Let_def setOffsetRightDistance_def clear_def)

lemma addData_Init_fields:
  "dataList (addData (DataArray xs) Init more' s) = xs"
  "barSpace (addData (DataArray xs) Init more' s) = barSpace s"
  "totalBarSpace (addData (DataArray xs) Init more' s) = totalBarSpace s"
  "lastBarRightSideDiffBarCount (addData (DataArray xs) Init more' s) =
     limitedDiffBarCount (s\<lparr>dataList := xs, lastBarRightSideDiffBarCount :=
       (if scrollLimitRole s = Distance then min (maxOffsetDistance_right s) (offsetRightDistance s)
        else offsetRightDistance s) / barSpace s\<rparr>)"
proof -
  show "dataList (addData (DataArray xs) Init more' s) = xs"
    "barSpace (addData (DataArray xs) Init more' s) = barSpace s"
    "totalBarSpace (addData (DataArray xs) Init more' s) = totalBarSpace s"
    by (simp_all add: addData_def Let_def addDataArray_fields addDataArray_Init_store)
  define s1 where "s1 = (if 0 < length xs then resolveOverlays Init (length xs) (store (addDataArray xs Init more' s))
      else store (addDataArray xs Init more' s))"
  have "lastBarRightSideDiffBarCount (addData (DataArray xs) Init more' s) = limitedDiffBarCount s1"
    by (simp add: addData_def Let_def addDataArray_fields addDataArray_Init_store s1_def)
  also have "\<dots> = limitedDiffBarCount
      (s\<lparr>dataList := xs, lastBarRightSideDiffBarCount :=
       (if scrollLimitRole s = Distance then min (maxOffsetDistance_right s) (offsetRightDistance s)
        else offsetRightDistance s) / barSpace s\<rparr>)"
    by (rule limitedDiffBarCount_cong)
       (simp_all add: s1_def addDataArray_Init_store leftMinVisibleBarCount_def rightMinVisibleBarCount_def)
  finally show "lastBarRightSideDiffBarCount (addData (DataArray xs) Init more' s) =
     limitedDiffBarCount (s\<lparr>dataList := xs, lastBarRightSideDiffBarCount :=
       (if scrollLimitRole s = Distance then min (maxOffsetDistance_right s) (offsetRightDistance s)
        else offsetRightDistance s) / barSpace s\<rparr>)" .
qed

text \<open>
  The scenario of the two bars \<open>{t:1, c:10, o:9}\<close> and \<open>{t:2, c:11, o:10}\<close>, loaded into a new
  store at bar space 10 with a drawing area 200 pixels wide: the initial load leaves the right
  offset at 8 bars, and the second bar's centre is at pixel 115.
\<close>

lemma dataIndexToCoordinate_scenario:
  "dataIndexToCoordinate (addData (DataArray [bar1, bar2]) Init None (setTotalBarSpace 200 emptyStore)) 1 = 115"
proof -
  define s0 where "s0 = setTotalBarSpace 200 emptyStore"
  have s0: "barSpace s0 = 10" "totalBarSpace s0 = 200" "offsetRightDistance s0 = 80"
    "scrollLimitRole s0 = BarCount" "minVisibleBarCount_left s0 = 2" "minVisibleBarCount_right s0 = 2"
    unfolding s0_def setTotalBarSpace_fields
    by (simp_all add: emptyStore_fields emptyStore_def newStore_def DEFAULT_OFFSET_RIGHT_DISTANCE_def
        DEFAULT_BAR_SPACE_def)
  have lim: "limitedDiffBarCount (s0\<lparr>dataList := [bar1, bar2], lastBarRightSideDiffBarCount := 8\<rparr>) = 8"
    by (simp add: limitedDiffBarCount_def maxRightOffsetBarCount_def minRightOffsetBarCount_def
        leftMinVisibleBarCount_def rightMinVisibleBarCount_def s0 Let_def)
  show ?thesis
    unfolding s0_def [symmetric] dataIndexToCoordinate_def Let_def
    by (simp add: addData_Init_fields s0 lim)
qed

section \<open>A right offset outside the scroll limits\<close>

lemma addData_Init_limits:
  "scrollLimitRole (addData (DataArray xs) Init more' s) = scrollLimitRole s"
  "minVisibleBarCount_left (addData (DataArray xs) Init more' s) = minVisibleBarCount_left s"
  "minVisibleBarCount_right (addData (DataArray xs) Init more' s) = minVisibleBarCount_right s"
  by (simp_all add: addData_def Let_def addDataArray_fields addDataArray_Init_store)

lemma offLimitStore_fields:
  "dataList offLimitStore = [bar1, bar2, bar3]" "totalBarSpace offLimitStore = 200"
  "barSpace offLimitStore = 10" "lastBarRightSideDiffBarCount offLimitStore = - 5"
  "scrollLimitRole offLimitStore = BarCount" "minVisibleBarCount_left offLimitStore = 2"
  "minVisibleBarCount_right offLimitStore = 2"
  by (simp_all add: offLimitStore_def setLastBarRightSideDiffBarCount_def addData_Init_fields
      addData_Init_limits setTotalBarSpace_fields emptyStore_fields)

lemma offLimitStore_reachable: "reachable offLimitStore"
proof -
  have "reachable emptyStore"
    unfolding emptyStore_def by (rule reachable.new)
  then have "reachable (mutate (SetTotalBarSpace 200) emptyStore)"
    by (rule reachable.step) simp
  then have "reachable (mutate (AddData (DataArray [bar1, bar2, bar3]) Init None)
      (mutate (SetTotalBarSpace 200) emptyStore))"
    by (rule reachable.step) simp
  then show ?thesis
    unfolding offLimitStore_def by (rule reachable.step) simp
qed

text \<open>
  C3 (as stated, refuted): three bars are loaded and the right offset is then set to \<open>-5\<close>,
  below the lower scroll limit.  Appending a bar lowers the offset to \<open>-6\<close> and the range
  adjustment clamps it to \<open>- 4 + 2\<close>: it ends at \<open>-2\<close>, not one lower than \<open>-5\<close>.  Replacing the
  last bar leaves the offset to the adjustment, which clamps it to \<open>- 3 + 2\<close>: it ends at \<open>-1\<close>,
  not unshifted.
\<close>

theorem single_bar_offset_clamped:
  "reachable offLimitStore \<and> dataList offLimitStore \<noteq> [] \<and>
   lastBarRightSideDiffBarCount offLimitStore = - 5 \<and>
   timestamp (last (dataList offLimitStore)) < timestamp bar4 \<and>
   lastBarRightSideDiffBarCount (addData (DataSingle bar4) Backward None offLimitStore) = - 2 \<and>
   timestamp (bar3\<lparr>close := 20\<rparr>) = timestamp (last (dataList offLimitStore)) \<and>
   lastBarRightSideDiffBarCount (addData (DataSingle (bar3\<lparr>close := 20\<rparr>)) Backward None offLimitStore) = - 1"
proof -
  have ne: "dataList offLimitStore \<noteq> []"
    by (simp add: offLimitStore_fields)
  have ts: "timestamp bar3 = 3" "timestamp bar4 = 4"
    by (simp_all add: bar3_def bar4_def)
  have lt: "lastDataTimestamp offLimitStore < timestamp bar4"
    by (simp add: lastDataTimestamp_last [OF ne] offLimitStore_fields ts)
  have eq: "timestamp (bar3\<lparr>close := 20\<rparr>) = lastDataTimestamp offLimitStore"
    by (simp add: lastDataTimestamp_last [OF ne] offLimitStore_fields ts)
  note a = addDataSingle_append [OF lt]
  note r = addDataSingle_replace [OF eq ne]
  have appended: "lastBarRightSideDiffBarCount (addData (DataSingle bar4) Backward None offLimitStore) = - 2"
    unfolding addData_single_offset [OF a(1,2)] clampToScrollLimits_def maxRightOffsetBarCount_def
      minRightOffsetBarCount_def leftMinVisibleBarCount_def rightMinVisibleBarCount_def
      addData_single_fields addData_single_accepted(1) [OF a(1,2)] a(4,5)
    by (simp add: offLimitStore_fields)
  have replaced: "lastBarRightSideDiffBarCount
      (addData (DataSingle (bar3\<lparr>close := 20\<rparr>)) Backward None offLimitStore) = - 1"
    unfolding addData_single_offset [OF r(1,2)] clampToScrollLimits_def maxRightOffsetBarCount_def
      minRightOffsetBarCount_def leftMinVisibleBarCount_def rightMinVisibleBarCount_def
      addData_single_fields addData_single_accepted(1) [OF r(1,2)] r(4,5)
    by (simp add: offLimitStore_fields)
  show ?thesis
    using offLimitStore_reachable ne appended replaced
    by (simp add: offLimitStore_fields ts)
qed

end
